theory Spec2Isabelle
  imports Complex_Main "HOL-Library.Word"
begin

section \<open>Data model\<close>

text \<open>
  A shallow embedding of \<^verbatim>\<open>probe_floppy.py\<close>. A track image is a Python
  \<^verbatim>\<open>bytearray\<close>: a list of bytes. Values read out of it are Python integers; they
  are never negative here, so they are naturals. A verdict is the pair
  \<^verbatim>\<open>(format, filesystem)\<close> a probe returns, each component a string or
  \<^verbatim>\<open>None\<close>.
\<close>

type_synonym byte = "8 word"

type_synonym verdict = "string option \<times> string option"

text \<open>
  The two exceptions the probing code can raise by itself: indexing a bytearray out of
  range, and \<^verbatim>\<open>bytearray('')\<close> (a \<^verbatim>\<open>str\<close> without an encoding) in
  \<^verbatim>\<open>read_track\<close>.
\<close>

datatype error = IndexError | TypeError

text \<open>
  \<^verbatim>\<open>--size\<close> is restricted by argparse to the choices \<^verbatim>\<open>"3.5"\<close> and
  \<^verbatim>\<open>"5.25"\<close>, so \<^verbatim>\<open>fe_params['media_size']\<close> is one of two values.
\<close>

datatype media = Size_3_5 | Size_5_25

record fe_params =
  device :: "string option"
  drive :: nat
  media_size :: media
  forty_track :: bool

text \<open>
  The fluxengine subprocess is the outside world. What matters of one run is its return
  code and the bytes it left in the output image; which run it is, is decided by the
  decoder, the cylinder and the parameters on its command line.
\<close>

record completed_process =
  returncode :: int
  image :: "byte list"

type_synonym fluxengine = "string \<Rightarrow> nat \<Rightarrow> fe_params \<Rightarrow> completed_process"

section \<open>Exceptions\<close>

text \<open>Sequencing: an exception raised by the first step is the result of the whole.\<close>

fun and_then :: "error + 'a \<Rightarrow> ('a \<Rightarrow> error + 'b) \<Rightarrow> error + 'b" where
  "and_then (Inl e) f = Inl e"
| "and_then (Inr x) f = f x"

section \<open>Field decoders and the emptiness check\<close>

text \<open>\<^verbatim>\<open>len([x for x in data if x != 0]) > 0\<close>\<close>

definition has_data :: "byte list \<Rightarrow> bool" where
  "has_data data \<longleftrightarrow> length (filter (\<lambda>x. x \<noteq> 0) data) > 0"

text \<open>\<^verbatim>\<open>data[i]\<close> for an index that is not negative: the byte as an integer, or IndexError.\<close>

definition get_byte :: "byte list \<Rightarrow> nat \<Rightarrow> error + nat" where
  "get_byte data i = (if i < length data then Inr (unat (data ! i)) else Inl IndexError)"

definition get_word :: "byte list \<Rightarrow> nat \<Rightarrow> bool \<Rightarrow> error + nat" where
  "get_word data offset big_endian =
     (if big_endian then
        and_then (get_byte data offset) (\<lambda>hi.
        and_then (get_byte data (offset + 1)) (\<lambda>lo.
          Inr (hi * 256 + lo)))
      else
        and_then (get_byte data offset) (\<lambda>lo.
        and_then (get_byte data (offset + 1)) (\<lambda>hi.
          Inr (lo + hi * 256))))"

text \<open>
  The loop of \<^verbatim>\<open>get_string\<close> over \<^verbatim>\<open>range(offset, offset + length)\<close>,
  appending \<^verbatim>\<open>chr(data[i])\<close> to the buffer.
\<close>

fun get_string_loop :: "byte list \<Rightarrow> nat list \<Rightarrow> string \<Rightarrow> error + string" where
  "get_string_loop data [] buffer = Inr buffer"
| "get_string_loop data (i # rest) buffer =
     (case get_byte data i of
        Inl e \<Rightarrow> Inl e
      | Inr b \<Rightarrow> get_string_loop data rest (buffer @ [char_of b]))"

definition get_string :: "byte list \<Rightarrow> nat \<Rightarrow> nat \<Rightarrow> error + string" where
  "get_string data offset len = get_string_loop data [offset ..< offset + len] ''''"

section \<open>Track acquisition\<close>

text \<open>
  \<^verbatim>\<open>read_track\<close> runs fluxengine. On return code 0 it reads the image file and
  returns \<^verbatim>\<open>bytearray(data)\<close>. Otherwise it sets \<^verbatim>\<open>data = ''\<close>, logs the
  failure and evaluates \<^verbatim>\<open>bytearray('')\<close>, which in Python 3 raises
  \<^verbatim>\<open>TypeError: string argument without an encoding\<close>. A fluxengine that cannot
  be started, and one that exits with 0 without writing the image, are not modelled.
  Logging and \<^verbatim>\<open>dump_data\<close> print and change no result; they are left out, and
  the \<^verbatim>\<open>debug\<close> flag of the probes is carried along unused.
\<close>

definition read_track :: "fluxengine \<Rightarrow> string \<Rightarrow> nat \<Rightarrow> fe_params \<Rightarrow> error + byte list" where
  "read_track fe decoder cylinder p =
     (let proc = fe decoder cylinder p in
      if returncode proc = 0 then Inr (image proc) else Inl TypeError)"

section \<open>The BPB/FAT probe\<close>

text \<open>
  \<^verbatim>\<open>bpb_probes\<close>: per media size a dict from decoder name to the expected total
  sector count. The loop walks its keys in insertion order and looks the value of the
  current key up again, so the model walks the (key, value) pairs.
\<close>

definition bpb_probes :: "media \<Rightarrow> (string \<times> nat) list" where
  "bpb_probes m =
     (case m of
        Size_3_5 \<Rightarrow> [(''ibm1440'', 2880), (''ibm720'', 1440)]
      | Size_5_25 \<Rightarrow> [(''ibm1200'', 2400), (''ibm360'', 720), (''ibm320'', 640),
                      (''ibm180'', 360), (''ibm160'', 320)])"

text \<open>Lines 75 to 80, on the float \<^verbatim>\<open>cluster_count\<close>.\<close>

definition fat_type :: "real \<Rightarrow> string" where
  "fat_type cluster_count =
     (if cluster_count < 4085 then ''fat12''
      else if cluster_count < 65525 then ''fat16''
      else ''fat32'')"

text \<open>
  The \<^verbatim>\<open>for\<close> loop of \<^verbatim>\<open>probe_bpb\<close> over the remaining candidates. Each
  \<^verbatim>\<open>continue\<close>, and each fall through the end of the body, goes on with the rest;
  \<^verbatim>\<open>break\<close> returns the current format with the filesystem just set; the loop's
  \<^verbatim>\<open>else\<close> sets the format to None, the filesystem still being None.
  \<^verbatim>\<open>cluster_count\<close> is a true division of two integers; the divisor is a power of two
  up to 128 and the dividend is below 65536, so the float is the exact quotient.
\<close>

fun bpb_loop :: "fluxengine \<Rightarrow> fe_params \<Rightarrow> (string \<times> nat) list \<Rightarrow> error + verdict" where
  "bpb_loop fe p [] = Inr (None, None)"
| "bpb_loop fe p ((format, expected) # rest) =
     (case read_track fe format 0 p of
        Inl e \<Rightarrow> Inl e
      | Inr data \<Rightarrow>
          if \<not> has_data data then bpb_loop fe p rest
          else
            (case get_word data 0x1fe False of
               Inl e \<Rightarrow> Inl e
             | Inr signature \<Rightarrow>
                 if signature = 0xaa55 then
                   (case get_byte data 0 of
                      Inl e \<Rightarrow> Inl e
                    | Inr jump \<Rightarrow>
                        if jump = 0xeb \<or> jump = 0xe9 then
                          (case get_word data 0x13 False of
                             Inl e \<Rightarrow> Inl e
                           | Inr bpb_total_sectors \<Rightarrow>
                               if bpb_total_sectors = expected then
                                 (case get_byte data 0x0d of
                                    Inl e \<Rightarrow> Inl e
                                  | Inr bpb_sectors_per_cluster \<Rightarrow>
                                      if bpb_sectors_per_cluster \<notin> {1, 2, 4, 8, 16, 32, 64, 128}
                                      then bpb_loop fe p rest
                                      else
                                        Inr (Some format,
                                             Some (fat_type (real bpb_total_sectors /
                                                             real bpb_sectors_per_cluster))))
                               else bpb_loop fe p rest)
                        else bpb_loop fe p rest)
                 else bpb_loop fe p rest))"

definition probe_bpb :: "fluxengine \<Rightarrow> fe_params \<Rightarrow> bool \<Rightarrow> error + verdict" where
  "probe_bpb fe p debug = bpb_loop fe p (bpb_probes (media_size p))"

section \<open>The Macintosh probe\<close>

text \<open>Lines 112 to 131: the read with decoder mac800 and what follows it.\<close>

definition probe_mac800 :: "fluxengine \<Rightarrow> fe_params \<Rightarrow> error + verdict" where
  "probe_mac800 fe p =
     and_then (read_track fe ''mac800'' 0 p) (\<lambda>data.
       if \<not> has_data data then Inr (None, None)
       else
         and_then (get_word data 0 True) (\<lambda>boot.
           if boot = 0x4c4b then Inr (Some ''mac800'', Some ''hfs'')
           else
             and_then (get_word data 0x400 True) (\<lambda>volume.
               if volume = 0x4244 then Inr (Some ''mac800'', Some ''hfs'')
               else
                 and_then (get_word data 0x400 True) (\<lambda>volume'.
                   if volume' = 0xd2d7 then Inr (Some ''mac400'', Some ''mfs'')
                   else Inr (Some ''mac800'', None)))))"

definition probe_mac :: "fluxengine \<Rightarrow> fe_params \<Rightarrow> bool \<Rightarrow> error + verdict" where
  "probe_mac fe p debug =
     (if media_size p = Size_5_25 then Inr (None, None)
      else
        and_then (read_track fe ''ibm1440'' 0 p) (\<lambda>data.
          if has_data data then
            and_then (get_word data 0x400 True) (\<lambda>volume.
              if volume = 0x4244 then Inr (Some ''ibm1440'', Some ''hfs'')
              else probe_mac800 fe p)
          else probe_mac800 fe p))"

section \<open>The Amiga probe\<close>

definition fstypes :: "(string \<times> string) list" where
  "fstypes =
     [(''DOS'' @ [CHR 0x00], ''amiga_ofs''),
      (''DOS'' @ [CHR 0x01], ''amiga_ffs''),
      (''DOS'' @ [CHR 0x02], ''amiga_ofs_international''),
      (''DOS'' @ [CHR 0x03], ''amiga_ffs_international''),
      (''DOS'' @ [CHR 0x04], ''amiga_ofs_international_dircache''),
      (''DOS'' @ [CHR 0x05], ''amiga_ffs_international_dircache'')]"

definition probe_amiga :: "fluxengine \<Rightarrow> fe_params \<Rightarrow> bool \<Rightarrow> error + verdict" where
  "probe_amiga fe p debug =
     (if media_size p = Size_5_25 then Inr (None, None)
      else
        and_then (read_track fe ''amiga'' 0 p) (\<lambda>data.
          if \<not> has_data data then Inr (None, None)
          else
            and_then (get_string data 0 4) (\<lambda>fstype.
              Inr (Some ''amiga'', map_of fstypes fstype))))"

section \<open>The Commodore probe\<close>

text \<open>
  \<^verbatim>\<open>data[0x16500] == 0x12 and data[0x16501] == 0x01\<close> reads the second byte only
  when the first comparison holds.
\<close>

definition probe_c64 :: "fluxengine \<Rightarrow> fe_params \<Rightarrow> bool \<Rightarrow> error + verdict" where
  "probe_c64 fe p debug =
     (if media_size p = Size_5_25 then
        and_then (read_track fe ''commodore1541'' 17 p) (\<lambda>data.
          if has_data data then
            and_then (get_byte data 0x16500) (\<lambda>track.
              if track = 0x12 then
                and_then (get_byte data 0x16501) (\<lambda>sector.
                  if sector = 0x01 then
                    and_then (get_string data 0x165a5 2) (\<lambda>version.
                      if version = ''2A'' then Inr (Some ''commodore1541'', Some ''2A'')
                      else Inr (None, None))
                  else Inr (None, None))
              else Inr (None, None))
          else Inr (None, None))
      else Inr (None, None))"

section \<open>The pipeline\<close>

text \<open>
  The loop of \<^verbatim>\<open>main\<close> over the probes: the first verdict whose format is not
  None is printed and the process exits; when the loop runs out, the other message is
  printed. \<^verbatim>\<open>main_loop\<close> gives what was found, \<^verbatim>\<open>main\<close> the line printed.
\<close>

fun run_probes ::
  "(fe_params \<Rightarrow> bool \<Rightarrow> error + verdict) list \<Rightarrow> fe_params \<Rightarrow> bool \<Rightarrow>
     error + (string \<times> string option) option" where
  "run_probes [] p debug = Inr None"
| "run_probes (probe # rest) p debug =
     (case probe p debug of
        Inl e \<Rightarrow> Inl e
      | Inr (None, filesystem) \<Rightarrow> run_probes rest p debug
      | Inr (Some format, filesystem) \<Rightarrow> Inr (Some (format, filesystem)))"

definition main_loop ::
  "fluxengine \<Rightarrow> fe_params \<Rightarrow> bool \<Rightarrow> error + (string \<times> string option) option" where
  "main_loop fe p debug =
     run_probes [probe_bpb fe, probe_mac fe, probe_amiga fe, probe_c64 fe] p debug"

text \<open>An f-string renders None as the text \<^verbatim>\<open>None\<close>.\<close>

definition format_line :: "string \<Rightarrow> string option \<Rightarrow> string" where
  "format_line format filesystem =
     ''Format: '' @ format @ '', Filesystem: '' @
       (case filesystem of None \<Rightarrow> ''None'' | Some fs \<Rightarrow> fs)"

definition not_common :: string where
  "not_common = ''Not a common format or it is corrupt''"

definition main :: "fluxengine \<Rightarrow> fe_params \<Rightarrow> bool \<Rightarrow> error + string" where
  "main fe p debug =
     and_then (main_loop fe p debug) (\<lambda>found.
       case found of
         Some (format, filesystem) \<Rightarrow> Inr (format_line format filesystem)
       | None \<Rightarrow> Inr not_common)"

section \<open>Sample drives\<close>

definition params_3_5 :: fe_params where
  "params_3_5 = \<lparr>device = None, drive = 0, media_size = Size_3_5, forty_track = False\<rparr>"

definition params_5_25 :: fe_params where
  "params_5_25 = \<lparr>device = None, drive = 0, media_size = Size_5_25, forty_track = True\<rparr>"

text \<open>
  A fluxengine that writes the listed image for a listed decoder and exits with 0, and
  exits with the given code, leaving no image, for any other decoder.
\<close>

definition sample_drive :: "(string \<times> byte list) list \<Rightarrow> int \<Rightarrow> fluxengine" where
  "sample_drive images rc decoder cylinder p =
     (case map_of images decoder of
        Some img \<Rightarrow> \<lparr>returncode = 0, image = img\<rparr>
      | None \<Rightarrow> \<lparr>returncode = rc, image = []\<rparr>)"

definition boot_sector :: "byte \<Rightarrow> nat \<Rightarrow> byte \<Rightarrow> byte list" where
  "boot_sector jump sectors spc =
     [jump] @ replicate 12 0 @ [spc] @ replicate 5 0 @
     [of_nat (sectors mod 256), of_nat (sectors div 256)] @ replicate 489 0 @ [0x55, 0xaa]"

definition d64_image :: "byte \<Rightarrow> byte \<Rightarrow> byte \<Rightarrow> byte \<Rightarrow> byte list" where
  "d64_image track sector c1 c2 =
     replicate 0x16500 0 @ [track, sector] @ replicate 163 0 @ [c1, c2]"

section \<open>The specification's vocabulary\<close>

text \<open>
  The field decoders as the specification describes them, for a buffer that holds the
  requested field: a byte, a 16-bit word in either byte order, a run of characters.
\<close>

definition byte_at :: "byte list \<Rightarrow> nat \<Rightarrow> nat" where
  "byte_at data offset = unat (data ! offset)"

definition word_at :: "byte list \<Rightarrow> nat \<Rightarrow> bool \<Rightarrow> nat" where
  "word_at data offset big_endian =
     (if big_endian then byte_at data offset * 256 + byte_at data (offset + 1)
      else byte_at data offset + byte_at data (offset + 1) * 256)"

definition ascii_at :: "byte list \<Rightarrow> nat \<Rightarrow> nat \<Rightarrow> string" where
  "ascii_at data offset len = map (\<lambda>i. char_of (byte_at data i)) [offset ..< offset + len]"

text \<open>The verdict invariant: no filesystem without a format.\<close>

definition verdict_invariant :: "verdict \<Rightarrow> bool" where
  "verdict_invariant v \<longleftrightarrow> (fst v = None \<longrightarrow> snd v = None)"

text \<open>The checks on one candidate of the BPB/FAT probe, in the specification's words.\<close>

definition bpb_candidate_matches :: "byte list \<Rightarrow> nat \<Rightarrow> bool" where
  "bpb_candidate_matches data expected \<longleftrightarrow>
     has_data data \<and>
     word_at data 0x1fe False = 0xaa55 \<and>
     (byte_at data 0 = 0xeb \<or> byte_at data 0 = 0xe9) \<and>
     word_at data 0x13 False = expected \<and>
     byte_at data 0x0d \<in> {1, 2, 4, 8, 16, 32, 64, 128}"

text \<open>
  The first candidate of the table that passes the checks, with the FAT width of its
  cluster count; \<open>buffer\<close> gives the track 0 acquired for each decoder.
\<close>

fun bpb_first_match :: "(string \<Rightarrow> byte list) \<Rightarrow> (string \<times> nat) list \<Rightarrow> verdict" where
  "bpb_first_match buffer [] = (None, None)"
| "bpb_first_match buffer ((format, expected) # rest) =
     (if bpb_candidate_matches (buffer format) expected then
        (Some format,
         Some (fat_type (real (word_at (buffer format) 0x13 False) /
                         real (byte_at (buffer format) 0x0d))))
      else bpb_first_match buffer rest)"

text \<open>
  The Macintosh verdict from the two buffers on 3.5-inch media: \<open>ibm\<close> read with
  decoder ibm1440, \<open>mac\<close> with decoder mac800.
\<close>

definition mac_verdict :: "byte list \<Rightarrow> byte list \<Rightarrow> verdict" where
  "mac_verdict ibm mac =
     (if has_data ibm \<and> word_at ibm 0x400 True = 0x4244 then (Some ''ibm1440'', Some ''hfs'')
      else if \<not> has_data mac then (None, None)
      else if word_at mac 0 True = 0x4c4b then (Some ''mac800'', Some ''hfs'')
      else if word_at mac 0x400 True = 0x4244 then (Some ''mac800'', Some ''hfs'')
      else if word_at mac 0x400 True = 0xd2d7 then (Some ''mac400'', Some ''mfs'')
      else (Some ''mac800'', None))"

text \<open>The Amiga tag table of the specification, entry by entry.\<close>

definition amiga_table :: "string \<Rightarrow> string option" where
  "amiga_table tag =
     (if tag = [CHR ''D'', CHR ''O'', CHR ''S'', CHR 0x00] then Some ''amiga_ofs''
      else if tag = [CHR ''D'', CHR ''O'', CHR ''S'', CHR 0x01] then Some ''amiga_ffs''
      else if tag = [CHR ''D'', CHR ''O'', CHR ''S'', CHR 0x02]
        then Some ''amiga_ofs_international''
      else if tag = [CHR ''D'', CHR ''O'', CHR ''S'', CHR 0x03]
        then Some ''amiga_ffs_international''
      else if tag = [CHR ''D'', CHR ''O'', CHR ''S'', CHR 0x04]
        then Some ''amiga_ofs_international_dircache''
      else if tag = [CHR ''D'', CHR ''O'', CHR ''S'', CHR 0x05]
        then Some ''amiga_ffs_international_dircache''
      else None)"

text \<open>
  A buffer holds the first \<open>n\<close> bytes a probe asks of it: either it has no signal,
  and the probe asks nothing, or it is at least \<open>n\<close> bytes long.
\<close>

definition fits :: "byte list \<Rightarrow> nat \<Rightarrow> bool" where
  "fits data n \<longleftrightarrow> \<not> has_data data \<or> n \<le> length data"

text \<open>
  How far the Macintosh probe reads into a mac800 buffer with signal: the word at
  offset 0, and the word at 0x400 unless the first is the boot-block signature.
\<close>

definition mac800_extent :: "byte list \<Rightarrow> nat" where
  "mac800_extent mac =
     (if 2 \<le> length mac \<and> word_at mac 0 True = 0x4c4b then 2 else 0x402)"

text \<open>
  How far the Commodore probe reads into a buffer with signal: the track byte at
  0x16500; the sector byte at 0x16501 if the track byte is 0x12; the two characters at
  0x165A5 if the sector byte is 0x01 as well.
\<close>

definition c64_extent :: "byte list \<Rightarrow> nat" where
  "c64_extent data =
     (if length data \<le> 0x16500 \<or> byte_at data 0x16500 \<noteq> 0x12 then 0x16501
      else if length data \<le> 0x16501 \<or> byte_at data 0x16501 \<noteq> 0x01 then 0x16502
      else 0x165a7)"

text \<open>
  Every buffer a probe acquires holds the fields the probe asks of it. A read that
  raises ends the probe; a read that is not reached is not looked at.
\<close>

fun bpb_in_bounds :: "fluxengine \<Rightarrow> fe_params \<Rightarrow> (string \<times> nat) list \<Rightarrow> bool" where
  "bpb_in_bounds fe p [] = True"
| "bpb_in_bounds fe p ((format, expected) # rest) =
     (case read_track fe format 0 p of
        Inl e \<Rightarrow> True
      | Inr data \<Rightarrow>
          fits data 0x200 \<and> (bpb_candidate_matches data expected \<or> bpb_in_bounds fe p rest))"

definition mac800_in_bounds :: "fluxengine \<Rightarrow> fe_params \<Rightarrow> bool" where
  "mac800_in_bounds fe p =
     (case read_track fe ''mac800'' 0 p of
        Inl e \<Rightarrow> True
      | Inr mac \<Rightarrow> fits mac (mac800_extent mac))"

definition mac_in_bounds :: "fluxengine \<Rightarrow> fe_params \<Rightarrow> bool" where
  "mac_in_bounds fe p =
     (media_size p = Size_5_25 \<or>
      (case read_track fe ''ibm1440'' 0 p of
         Inl e \<Rightarrow> True
       | Inr ibm \<Rightarrow>
           fits ibm 0x402 \<and>
           (has_data ibm \<and> word_at ibm 0x400 True = 0x4244 \<or> mac800_in_bounds fe p)))"

definition amiga_in_bounds :: "fluxengine \<Rightarrow> fe_params \<Rightarrow> bool" where
  "amiga_in_bounds fe p =
     (media_size p = Size_5_25 \<or>
      (case read_track fe ''amiga'' 0 p of Inl e \<Rightarrow> True | Inr data \<Rightarrow> fits data 4))"

definition c64_in_bounds :: "fluxengine \<Rightarrow> fe_params \<Rightarrow> bool" where
  "c64_in_bounds fe p =
     (media_size p = Size_3_5 \<or>
      (case read_track fe ''commodore1541'' 17 p of
         Inl e \<Rightarrow> True
       | Inr data \<Rightarrow> fits data (c64_extent data)))"

section \<open>Facts about the decoders\<close>

lemma has_data_iff: "has_data data \<longleftrightarrow> (\<exists>b\<in>set data. b \<noteq> 0)"
  by (auto simp: has_data_def filter_empty_conv)

lemma has_data_nonempty: "has_data data \<Longrightarrow> 0 < length data"
  by (auto simp: has_data_iff)

lemma get_byte_inside: "i < length data \<Longrightarrow> get_byte data i = Inr (byte_at data i)"
  by (simp add: get_byte_def byte_at_def)

lemma get_byte_outside: "length data \<le> i \<Longrightarrow> get_byte data i = Inl IndexError"
  by (simp add: get_byte_def)

lemma get_word_inside:
  "offset + 1 < length data \<Longrightarrow>
   get_word data offset big_endian = Inr (word_at data offset big_endian)"
  by (simp add: get_word_def get_byte_def word_at_def byte_at_def)

lemma get_word_outside:
  "length data \<le> offset + 1 \<Longrightarrow> get_word data offset big_endian = Inl IndexError"
  by (simp add: get_word_def get_byte_def)

lemma get_string_loop_inside:
  "\<forall>i\<in>set idxs. i < length data \<Longrightarrow>
   get_string_loop data idxs buffer = Inr (buffer @ map (\<lambda>i. char_of (byte_at data i)) idxs)"
  by (induction idxs arbitrary: buffer) (simp_all add: get_byte_def byte_at_def)

lemma get_string_inside:
  "offset + len \<le> length data \<Longrightarrow> get_string data offset len = Inr (ascii_at data offset len)"
  by (simp add: get_string_def get_string_loop_inside ascii_at_def)

lemma get_string_loop_outside:
  "\<exists>i\<in>set idxs. length data \<le> i \<Longrightarrow> get_string_loop data idxs buffer = Inl IndexError"
  by (induction idxs arbitrary: buffer) (auto simp: get_byte_def)

lemma get_string_outside:
  "0 < len \<Longrightarrow> length data < offset + len \<Longrightarrow> get_string data offset len = Inl IndexError"
  unfolding get_string_def
  by (rule get_string_loop_outside) (auto intro!: bexI [of _ "offset + len - 1"])

lemma byte_at_less: "byte_at data i < 256"
  using unsigned_less [of "data ! i", where 'a = nat] by (simp add: byte_at_def)

section \<open>Acquisition failure\<close>

text \<open>
  C9. When fluxengine exits with a nonzero return code, \<^verbatim>\<open>read_track\<close> does not
  return an empty buffer: \<^verbatim>\<open>bytearray('')\<close> raises TypeError, no probe catches
  it, and the pipeline ends with that exception instead of going on.
\<close>

theorem read_track_failure_raises:
  "read_track (sample_drive [] 1) ''ibm1440'' 0 params_3_5 = Inl TypeError \<and>
   probe_bpb (sample_drive [] 1) params_3_5 False = Inl TypeError \<and>
   main (sample_drive [] 1) params_3_5 False = Inl TypeError"
  by (simp add: read_track_def sample_drive_def probe_bpb_def bpb_probes_def params_3_5_def
      main_def main_loop_def)

section \<open>The Amiga probe's verdicts\<close>

lemma fstypes_table: "map_of fstypes tag = amiga_table tag"
  by (simp add: fstypes_def amiga_table_def)

text \<open>
  C4, as the code has it. On 5.25-inch media the Amiga probe returns (None, None)
  whatever the drive would do. On 3.5-inch media, a track 0 read with decoder amiga that
  holds no non-zero byte gives (None, None); one that holds a non-zero byte and at least
  four bytes gives format amiga, with the filesystem that the specification's table
  assigns to the four characters at offset 0, None for a tag outside the table; one that
  holds a non-zero byte and fewer than four bytes raises IndexError.
\<close>

theorem probe_amiga_verdict:
  "(media_size p = Size_5_25 \<longrightarrow> probe_amiga fe p debug = Inr (None, None)) \<and>
   (media_size p = Size_3_5 \<and> read_track fe ''amiga'' 0 p = Inr data \<and> \<not> has_data data \<longrightarrow>
      probe_amiga fe p debug = Inr (None, None)) \<and>
   (media_size p = Size_3_5 \<and> read_track fe ''amiga'' 0 p = Inr data \<and> has_data data \<and>
    4 \<le> length data \<longrightarrow>
      probe_amiga fe p debug = Inr (Some ''amiga'', amiga_table (ascii_at data 0 4))) \<and>
   (media_size p = Size_3_5 \<and> read_track fe ''amiga'' 0 p = Inr data \<and> has_data data \<and>
    length data < 4 \<longrightarrow>
      probe_amiga fe p debug = Inl IndexError)"
  by (simp add: probe_amiga_def get_string_inside get_string_outside fstypes_table)

text \<open>
  The theorem at four drives: 5.25-inch media with a drive whose every read fails, a
  blank track, the tag DOS 3, and a tag that is not in the table.
\<close>

theorem probe_amiga_verdict_witness:
  "probe_amiga (sample_drive [] 1) params_5_25 False = Inr (None, None) \<and>
   probe_amiga (sample_drive [(''amiga'', replicate 512 0)] 1) params_3_5 False = Inr (None, None) \<and>
   probe_amiga (sample_drive [(''amiga'', [0x44, 0x4f, 0x53, 0x03] @ replicate 508 0)] 1)
     params_3_5 False = Inr (Some ''amiga'', Some ''amiga_ffs_international'') \<and>
   probe_amiga (sample_drive [(''amiga'', [0x4b, 0x49, 0x43, 0x4b] @ replicate 508 0)] 1)
     params_3_5 False = Inr (Some ''amiga'', None)"
  using probe_amiga_verdict [where p = params_5_25 and fe = "sample_drive [] 1"]
    probe_amiga_verdict [where p = params_3_5 and data = "replicate 512 0"
      and fe = "sample_drive [(''amiga'', replicate 512 0)] 1"]
    probe_amiga_verdict [where p = params_3_5
      and data = "[0x44, 0x4f, 0x53, 0x03] @ replicate 508 0"
      and fe = "sample_drive [(''amiga'', [0x44, 0x4f, 0x53, 0x03] @ replicate 508 0)] 1"]
    probe_amiga_verdict [where p = params_3_5
      and data = "[0x4b, 0x49, 0x43, 0x4b] @ replicate 508 0"
      and fe = "sample_drive [(''amiga'', [0x4b, 0x49, 0x43, 0x4b] @ replicate 508 0)] 1"]
  by (simp add: params_3_5_def params_5_25_def sample_drive_def read_track_def has_data_iff
      ascii_at_def byte_at_def upt_rec char_of_eq_iff amiga_table_def)

text \<open>
  A track of the single byte 1 is not empty, yet the probe does not return format amiga:
  reading the tag raises IndexError at index 1.
\<close>

theorem probe_amiga_short_buffer:
  "has_data [1] \<and>
   probe_amiga (sample_drive [(''amiga'', [1])] 1) params_3_5 False = Inl IndexError"
  by (simp add: probe_amiga_def params_3_5_def sample_drive_def read_track_def has_data_iff
      get_string_outside)

section \<open>The Commodore probe's verdicts\<close>

lemma ascii_at_2A:
  "ascii_at data offset 2 = ''2A'' \<longleftrightarrow>
     byte_at data offset = 0x32 \<and> byte_at data (offset + 1) = 0x41"
  using byte_at_less [of data offset] byte_at_less [of data "offset + 1"]
  by (simp add: ascii_at_def upt_rec char_of_eq_iff take_bit_eq_mod)

lemma probe_c64_outcome:
  assumes "media_size p = Size_5_25" and "read_track fe ''commodore1541'' 17 p = Inr data"
  shows "probe_c64 fe p debug =
    (if fits data (c64_extent data) then
       Inr (if has_data data \<and> byte_at data 0x16500 = 0x12 \<and> byte_at data 0x16501 = 0x01 \<and>
               ascii_at data 0x165a5 2 = ''2A''
            then (Some ''commodore1541'', Some ''2A'') else (None, None))
     else Inl IndexError)"
proof (cases "has_data data")
  case False
  with assms show ?thesis
    by (simp add: probe_c64_def fits_def)
next
  case True
  show ?thesis
  proof (cases "length data \<le> 0x16500")
    case True
    then have "get_byte data 0x16500 = Inl IndexError"
      by (simp add: get_byte_outside)
    with assms \<open>has_data data\<close> True show ?thesis
      by (simp add: probe_c64_def fits_def c64_extent_def)
  next
    case l0: False
    then have b0: "get_byte data 0x16500 = Inr (byte_at data 0x16500)"
      by (simp add: get_byte_inside)
    show ?thesis
    proof (cases "byte_at data 0x16500 = 0x12")
      case False
      with assms True l0 b0 show ?thesis
        by (simp add: probe_c64_def fits_def c64_extent_def)
    next
      case t: True
      show ?thesis
      proof (cases "length data \<le> 0x16501")
        case True
        then have "get_byte data 0x16501 = Inl IndexError"
          by (simp add: get_byte_outside)
        with assms \<open>has_data data\<close> l0 b0 t True show ?thesis
          by (simp add: probe_c64_def fits_def c64_extent_def)
      next
        case l1: False
        then have b1: "get_byte data 0x16501 = Inr (byte_at data 0x16501)"
          by (simp add: get_byte_inside)
        show ?thesis
        proof (cases "byte_at data 0x16501 = 0x01")
          case False
          with assms True l0 b0 t l1 b1 show ?thesis
            by (simp add: probe_c64_def fits_def c64_extent_def)
        next
          case s: True
          show ?thesis
          proof (cases "0x165a7 \<le> length data")
            case True
            then have "get_string data 0x165a5 2 = Inr (ascii_at data 0x165a5 2)"
              by (simp add: get_string_inside)
            with assms \<open>has_data data\<close> l0 b0 t l1 b1 s True show ?thesis
              by (simp add: probe_c64_def fits_def c64_extent_def)
          next
            case False
            then have "get_string data 0x165a5 2 = Inl IndexError"
              by (simp add: get_string_outside)
            with assms \<open>has_data data\<close> l0 b0 t l1 b1 s False show ?thesis
              by (simp add: probe_c64_def fits_def c64_extent_def)
          qed
        qed
      qed
    qed
  qed
qed

lemma c64_not_fits:
  "\<not> fits data (c64_extent data) \<longleftrightarrow>
     has_data data \<and>
     (length data \<le> 0x16500 \<or>
      byte_at data 0x16500 = 0x12 \<and>
      (length data \<le> 0x16501 \<or> byte_at data 0x16501 = 0x01 \<and> length data < 0x165a7))"
  by (auto simp: fits_def c64_extent_def)

text \<open>
  C5, as the code has it. On 3.5-inch media the Commodore probe returns (None, None)
  and asks nothing of the drive. On 5.25-inch media, let the read of track 17 with
  decoder commodore1541 give a buffer. The probe raises IndexError exactly when the
  buffer holds a non-zero byte and ends before a field that is read: it has at most
  0x16500 bytes; or the byte at 0x16500 is 0x12 and it has at most 0x16501 bytes; or the
  bytes at 0x16500 and 0x16501 are 0x12 and 0x01 and it has fewer than 0x165A7 bytes.
  Otherwise the probe returns (commodore1541, 2A) exactly when the buffer holds a
  non-zero byte, the bytes at 0x16500 and 0x16501 are 0x12 and 0x01 and the two
  characters at 0x165A5 are 2A, and (None, None) in every other case. In particular
  that is so for every buffer without signal or of at least 0x165A7 bytes.
\<close>

theorem probe_c64_verdict:
  "((media_size p = Size_5_25 \<longrightarrow>
       read_track fe ''commodore1541'' 17 p = Inr data \<and>
       (has_data data \<longrightarrow> 0x165a7 \<le> length data)) \<longrightarrow>
    probe_c64 fe p debug =
      Inr (if media_size p = Size_5_25 \<and> has_data data \<and>
              byte_at data 0x16500 = 0x12 \<and> byte_at data 0x16501 = 0x01 \<and>
              ascii_at data 0x165a5 2 = ''2A''
           then (Some ''commodore1541'', Some ''2A'') else (None, None))) \<and>
   (media_size p = Size_5_25 \<and> read_track fe ''commodore1541'' 17 p = Inr data \<longrightarrow>
      probe_c64 fe p debug =
        (if fits data (c64_extent data) then
           Inr (if has_data data \<and> byte_at data 0x16500 = 0x12 \<and>
                   byte_at data 0x16501 = 0x01 \<and> ascii_at data 0x165a5 2 = ''2A''
                then (Some ''commodore1541'', Some ''2A'') else (None, None))
         else Inl IndexError)) \<and>
   (\<not> fits data (c64_extent data) \<longleftrightarrow>
      has_data data \<and>
      (length data \<le> 0x16500 \<or>
       byte_at data 0x16500 = 0x12 \<and>
       (length data \<le> 0x16501 \<or> byte_at data 0x16501 = 0x01 \<and> length data < 0x165a7)))"
proof (intro conjI impI)
  assume pre: "media_size p = Size_5_25 \<longrightarrow>
    read_track fe ''commodore1541'' 17 p = Inr data \<and>
    (has_data data \<longrightarrow> 0x165a7 \<le> length data)"
  show "probe_c64 fe p debug =
      Inr (if media_size p = Size_5_25 \<and> has_data data \<and>
              byte_at data 0x16500 = 0x12 \<and> byte_at data 0x16501 = 0x01 \<and>
              ascii_at data 0x165a5 2 = ''2A''
           then (Some ''commodore1541'', Some ''2A'') else (None, None))"
  proof (cases "media_size p = Size_5_25")
    case True
    with pre have rd: "read_track fe ''commodore1541'' 17 p = Inr data"
      and "has_data data \<longrightarrow> 0x165a7 \<le> length data"
      by simp_all
    then have "fits data (c64_extent data)"
      by (auto simp: fits_def c64_extent_def)
    with probe_c64_outcome [OF True rd] True show ?thesis
      by simp
  next
    case False
    then show ?thesis
      by (simp add: probe_c64_def)
  qed
next
  assume "media_size p = Size_5_25 \<and> read_track fe ''commodore1541'' 17 p = Inr data"
  then have "media_size p = Size_5_25" and "read_track fe ''commodore1541'' 17 p = Inr data"
    by simp_all
  then show "probe_c64 fe p debug =
        (if fits data (c64_extent data) then
           Inr (if has_data data \<and> byte_at data 0x16500 = 0x12 \<and>
                   byte_at data 0x16501 = 0x01 \<and> ascii_at data 0x165a5 2 = ''2A''
                then (Some ''commodore1541'', Some ''2A'') else (None, None))
         else Inl IndexError)"
    by (rule probe_c64_outcome)
next
  show "\<not> fits data (c64_extent data) \<longleftrightarrow>
      has_data data \<and>
      (length data \<le> 0x16500 \<or>
       byte_at data 0x16500 = 0x12 \<and>
       (length data \<le> 0x16501 \<or> byte_at data 0x16501 = 0x01 \<and> length data < 0x165a7))"
    by (rule c64_not_fits)
qed

text \<open>
  The theorem at ten drives: a 1541 image with the pointer 0x12, 0x01 and the marker
  2A; the same with the marker's second byte changed; with the sector byte changed; a
  blank image; 3.5-inch media with a drive whose every read fails; and five images that
  end between 0x16501 and 0x165A6 bytes, which return (None, None) where a pointer byte
  is wrong and raise IndexError where the next field is missing.
\<close>

theorem probe_c64_verdict_witness:
  "probe_c64 (sample_drive [(''commodore1541'', d64_image 0x12 0x01 0x32 0x41)] 1)
     params_5_25 False = Inr (Some ''commodore1541'', Some ''2A'') \<and>
   probe_c64 (sample_drive [(''commodore1541'', d64_image 0x12 0x01 0x32 0x42)] 1)
     params_5_25 False = Inr (None, None) \<and>
   probe_c64 (sample_drive [(''commodore1541'', d64_image 0x12 0x00 0x32 0x41)] 1)
     params_5_25 False = Inr (None, None) \<and>
   probe_c64 (sample_drive [(''commodore1541'', replicate 0x2ab00 0)] 1)
     params_5_25 False = Inr (None, None) \<and>
   probe_c64 (sample_drive [] 1) params_3_5 False = Inr (None, None) \<and>
   probe_c64 (sample_drive [(''commodore1541'', replicate 0x16500 0 @ [0x11])] 1)
     params_5_25 False = Inr (None, None) \<and>
   probe_c64 (sample_drive [(''commodore1541'', replicate 0x16500 0 @ [0x12])] 1)
     params_5_25 False = Inl IndexError \<and>
   probe_c64 (sample_drive [(''commodore1541'', replicate 0x16500 0 @ [0x12, 0x02])] 1)
     params_5_25 False = Inr (None, None) \<and>
   probe_c64 (sample_drive [(''commodore1541'', replicate 0x16500 0 @ [0x12, 0x01])] 1)
     params_5_25 False = Inl IndexError \<and>
   probe_c64 (sample_drive
       [(''commodore1541'', replicate 0x16500 0 @ [0x12, 0x01] @ replicate 163 0 @ [0x32])] 1)
     params_5_25 False = Inl IndexError"
  using
    probe_c64_verdict [where p = params_5_25 and data = "d64_image 0x12 0x01 0x32 0x41"
      and fe = "sample_drive [(''commodore1541'', d64_image 0x12 0x01 0x32 0x41)] 1"]
    probe_c64_verdict [where p = params_5_25 and data = "d64_image 0x12 0x01 0x32 0x42"
      and fe = "sample_drive [(''commodore1541'', d64_image 0x12 0x01 0x32 0x42)] 1"]
    probe_c64_verdict [where p = params_5_25 and data = "d64_image 0x12 0x00 0x32 0x41"
      and fe = "sample_drive [(''commodore1541'', d64_image 0x12 0x00 0x32 0x41)] 1"]
    probe_c64_verdict [where p = params_5_25 and data = "replicate 0x2ab00 0"
      and fe = "sample_drive [(''commodore1541'', replicate 0x2ab00 0)] 1"]
    probe_c64_verdict [where p = params_3_5 and data = "[]" and fe = "sample_drive [] 1"]
    probe_c64_verdict [where p = params_5_25 and data = "replicate 0x16500 0 @ [0x11]"
      and fe = "sample_drive [(''commodore1541'', replicate 0x16500 0 @ [0x11])] 1"]
    probe_c64_verdict [where p = params_5_25 and data = "replicate 0x16500 0 @ [0x12]"
      and fe = "sample_drive [(''commodore1541'', replicate 0x16500 0 @ [0x12])] 1"]
    probe_c64_verdict [where p = params_5_25 and data = "replicate 0x16500 0 @ [0x12, 0x02]"
      and fe = "sample_drive [(''commodore1541'', replicate 0x16500 0 @ [0x12, 0x02])] 1"]
    probe_c64_verdict [where p = params_5_25 and data = "replicate 0x16500 0 @ [0x12, 0x01]"
      and fe = "sample_drive [(''commodore1541'', replicate 0x16500 0 @ [0x12, 0x01])] 1"]
    probe_c64_verdict [where p = params_5_25
      and data = "replicate 0x16500 0 @ [0x12, 0x01] @ replicate 163 0 @ [0x32]"
      and fe = "sample_drive
        [(''commodore1541'', replicate 0x16500 0 @ [0x12, 0x01] @ replicate 163 0 @ [0x32])] 1"]
  by (simp add: params_3_5_def params_5_25_def sample_drive_def read_track_def has_data_iff
      d64_image_def ascii_at_2A byte_at_def nth_append)

text \<open>
  On 5.25-inch media a track of the single byte 1 passes the emptiness check, and the
  probe does not return (None, None): indexing 0x16500 raises IndexError.
\<close>

theorem probe_c64_short_buffer:
  "has_data [1] \<and>
   probe_c64 (sample_drive [(''commodore1541'', [1])] 1) params_5_25 False = Inl IndexError"
  by (simp add: probe_c64_def params_5_25_def sample_drive_def read_track_def has_data_iff
      get_byte_outside)

section \<open>The Macintosh probe's verdicts\<close>

lemma probe_mac800_sized:
  assumes "read_track fe ''mac800'' 0 p = Inr mac" and "has_data mac \<longrightarrow> 0x402 \<le> length mac"
  shows "probe_mac800 fe p =
    Inr (if \<not> has_data mac then (None, None)
      else if word_at mac 0 True = 0x4c4b then (Some ''mac800'', Some ''hfs'')
      else if word_at mac 0x400 True = 0x4244 then (Some ''mac800'', Some ''hfs'')
      else if word_at mac 0x400 True = 0xd2d7 then (Some ''mac400'', Some ''mfs'')
      else (Some ''mac800'', None))"
proof (cases "has_data mac")
  case True
  with assms have "get_word mac 0 True = Inr (word_at mac 0 True)"
    and "get_word mac 0x400 True = Inr (word_at mac 0x400 True)"
    by (simp_all add: get_word_inside)
  with True assms(1) show ?thesis
    by (simp add: probe_mac800_def)
next
  case False
  with assms(1) show ?thesis
    by (simp add: probe_mac800_def)
qed

lemma probe_mac800_outcome:
  assumes "read_track fe ''mac800'' 0 p = Inr mac"
  shows "probe_mac800 fe p =
    (if fits mac (mac800_extent mac) then
       Inr (if \<not> has_data mac then (None, None)
            else if word_at mac 0 True = 0x4c4b then (Some ''mac800'', Some ''hfs'')
            else if word_at mac 0x400 True = 0x4244 then (Some ''mac800'', Some ''hfs'')
            else if word_at mac 0x400 True = 0xd2d7 then (Some ''mac400'', Some ''mfs'')
            else (Some ''mac800'', None))
     else Inl IndexError)"
proof (cases "has_data mac")
  case False
  with assms show ?thesis
    by (simp add: probe_mac800_def fits_def)
next
  case True
  show ?thesis
  proof (cases "2 \<le> length mac")
    case False
    then have "get_word mac 0 True = Inl IndexError"
      by (simp add: get_word_outside)
    with assms True False show ?thesis
      by (simp add: probe_mac800_def fits_def mac800_extent_def)
  next
    case two: True
    then have w0: "get_word mac 0 True = Inr (word_at mac 0 True)"
      by (simp add: get_word_inside)
    show ?thesis
    proof (cases "0x402 \<le> length mac")
      case True
      then have "get_word mac 0x400 True = Inr (word_at mac 0x400 True)"
        by (simp add: get_word_inside)
      with assms \<open>has_data mac\<close> two True w0 show ?thesis
        by (simp add: probe_mac800_def fits_def mac800_extent_def)
    next
      case False
      then have "get_word mac 0x400 True = Inl IndexError"
        by (simp add: get_word_outside)
      with assms \<open>has_data mac\<close> two False w0 show ?thesis
        by (simp add: probe_mac800_def fits_def mac800_extent_def)
    qed
  qed
qed

lemma probe_mac_ibm_short:
  assumes "media_size p = Size_3_5" and "read_track fe ''ibm1440'' 0 p = Inr ibm"
    and "\<not> fits ibm 0x402"
  shows "probe_mac fe p debug = Inl IndexError"
  using assms by (simp add: probe_mac_def fits_def get_word_outside)

lemma probe_mac_ibm_hit:
  assumes "media_size p = Size_3_5" and "read_track fe ''ibm1440'' 0 p = Inr ibm"
    and "has_data ibm" and "0x402 \<le> length ibm" and "word_at ibm 0x400 True = 0x4244"
  shows "probe_mac fe p debug = Inr (Some ''ibm1440'', Some ''hfs'')"
  using assms by (simp add: probe_mac_def get_word_inside)

lemma probe_mac_ibm_miss:
  assumes "media_size p = Size_3_5" and "read_track fe ''ibm1440'' 0 p = Inr ibm"
    and "fits ibm 0x402" and "\<not> (has_data ibm \<and> word_at ibm 0x400 True = 0x4244)"
  shows "probe_mac fe p debug = probe_mac800 fe p"
proof (cases "has_data ibm")
  case True
  with assms(3) have "get_word ibm 0x400 True = Inr (word_at ibm 0x400 True)"
    by (simp add: fits_def get_word_inside)
  with assms True show ?thesis
    by (simp add: probe_mac_def)
next
  case False
  with assms show ?thesis
    by (simp add: probe_mac_def)
qed

lemma mac800_not_fits:
  "\<not> fits mac (mac800_extent mac) \<longleftrightarrow>
     has_data mac \<and> (length mac < 2 \<or> word_at mac 0 True \<noteq> 0x4c4b \<and> length mac < 0x402)"
  by (auto simp: fits_def mac800_extent_def)

text \<open>
  C3, as the code has it. On 5.25-inch media the Macintosh probe returns (None, None)
  whatever the drive would do. On 3.5-inch media, when the track 0 read with decoder
  ibm1440 holds a non-zero byte, at least 0x402 bytes and the big-endian word 0x4244 at
  0x400, the verdict is (ibm1440, hfs) and decoder mac800 is not used; when it holds a
  non-zero byte and fewer than 0x402 bytes, the probe raises IndexError. Otherwise the
  probe reads with decoder mac800. It raises IndexError exactly when that buffer holds a
  non-zero byte and ends before a field that is read: it has one byte, or its word at
  offset 0 is not 0x4C4B and it has fewer than 0x402 bytes. In every other case the
  verdict is that of the specification's cascade: (None, None) for a mac800 buffer
  without signal; else (mac800, hfs) for 0x4C4B at offset 0, where nothing is read at
  0x400; else (mac800, hfs) for 0x4244 at 0x400; else (mac400, mfs) for 0xD2D7 at
  0x400; else (mac800, None).
\<close>

theorem probe_mac_verdict:
  "(media_size p = Size_5_25 \<longrightarrow> probe_mac fe p debug = Inr (None, None)) \<and>
   (media_size p = Size_3_5 \<and> read_track fe ''ibm1440'' 0 p = Inr ibm \<and> has_data ibm \<and>
    0x402 \<le> length ibm \<and> word_at ibm 0x400 True = 0x4244 \<longrightarrow>
      probe_mac fe p debug = Inr (Some ''ibm1440'', Some ''hfs'')) \<and>
   (media_size p = Size_3_5 \<and>
    read_track fe ''ibm1440'' 0 p = Inr ibm \<and> (has_data ibm \<longrightarrow> 0x402 \<le> length ibm) \<and>
    read_track fe ''mac800'' 0 p = Inr mac \<and> (has_data mac \<longrightarrow> 0x402 \<le> length mac) \<longrightarrow>
      probe_mac fe p debug = Inr (mac_verdict ibm mac)) \<and>
   (media_size p = Size_3_5 \<and> read_track fe ''ibm1440'' 0 p = Inr ibm \<and> has_data ibm \<and>
    length ibm \<le> 0x401 \<longrightarrow>
      probe_mac fe p debug = Inl IndexError) \<and>
   (media_size p = Size_3_5 \<and> read_track fe ''ibm1440'' 0 p = Inr ibm \<and> fits ibm 0x402 \<and>
    \<not> (has_data ibm \<and> word_at ibm 0x400 True = 0x4244) \<and>
    read_track fe ''mac800'' 0 p = Inr mac \<longrightarrow>
      probe_mac fe p debug =
        (if fits mac (mac800_extent mac) then Inr (mac_verdict ibm mac) else Inl IndexError)) \<and>
   (\<not> fits mac (mac800_extent mac) \<longleftrightarrow>
      has_data mac \<and> (length mac < 2 \<or> word_at mac 0 True \<noteq> 0x4c4b \<and> length mac < 0x402))"
proof (intro conjI impI)
  assume "media_size p = Size_5_25"
  then show "probe_mac fe p debug = Inr (None, None)"
    by (simp add: probe_mac_def)
next
  assume "media_size p = Size_3_5 \<and> read_track fe ''ibm1440'' 0 p = Inr ibm \<and> has_data ibm \<and>
    0x402 \<le> length ibm \<and> word_at ibm 0x400 True = 0x4244"
  then show "probe_mac fe p debug = Inr (Some ''ibm1440'', Some ''hfs'')"
    by (simp add: probe_mac_def get_word_inside)
next
  assume pre: "media_size p = Size_3_5 \<and>
    read_track fe ''ibm1440'' 0 p = Inr ibm \<and> (has_data ibm \<longrightarrow> 0x402 \<le> length ibm) \<and>
    read_track fe ''mac800'' 0 p = Inr mac \<and> (has_data mac \<longrightarrow> 0x402 \<le> length mac)"
  then have m800: "probe_mac800 fe p =
    Inr (if \<not> has_data mac then (None, None)
      else if word_at mac 0 True = 0x4c4b then (Some ''mac800'', Some ''hfs'')
      else if word_at mac 0x400 True = 0x4244 then (Some ''mac800'', Some ''hfs'')
      else if word_at mac 0x400 True = 0xd2d7 then (Some ''mac400'', Some ''mfs'')
      else (Some ''mac800'', None))"
    by (intro probe_mac800_sized) simp_all
  show "probe_mac fe p debug = Inr (mac_verdict ibm mac)"
  proof (cases "has_data ibm")
    case True
    with pre have "get_word ibm 0x400 True = Inr (word_at ibm 0x400 True)"
      by (simp add: get_word_inside)
    with True pre m800 show ?thesis
      by (simp add: probe_mac_def mac_verdict_def)
  next
    case False
    with pre m800 show ?thesis
      by (simp add: probe_mac_def mac_verdict_def)
  qed
next
  assume "media_size p = Size_3_5 \<and> read_track fe ''ibm1440'' 0 p = Inr ibm \<and> has_data ibm \<and>
    length ibm \<le> 0x401"
  then show "probe_mac fe p debug = Inl IndexError"
    by (simp add: probe_mac_def get_word_outside)
next
  assume pre: "media_size p = Size_3_5 \<and> read_track fe ''ibm1440'' 0 p = Inr ibm \<and>
    fits ibm 0x402 \<and> \<not> (has_data ibm \<and> word_at ibm 0x400 True = 0x4244) \<and>
    read_track fe ''mac800'' 0 p = Inr mac"
  then have "media_size p = Size_3_5" and "read_track fe ''ibm1440'' 0 p = Inr ibm"
    and "fits ibm 0x402" and miss: "\<not> (has_data ibm \<and> word_at ibm 0x400 True = 0x4244)"
    and rd: "read_track fe ''mac800'' 0 p = Inr mac"
    by simp_all
  then have "probe_mac fe p debug = probe_mac800 fe p"
    by (intro probe_mac_ibm_miss)
  with probe_mac800_outcome [OF rd] miss
  show "probe_mac fe p debug =
    (if fits mac (mac800_extent mac) then Inr (mac_verdict ibm mac) else Inl IndexError)"
    by (auto simp: mac_verdict_def)
next
  show "\<not> fits mac (mac800_extent mac) \<longleftrightarrow>
    has_data mac \<and> (length mac < 2 \<or> word_at mac 0 True \<noteq> 0x4c4b \<and> length mac < 0x402)"
    by (rule mac800_not_fits)
qed

text \<open>
  The theorem at eight drives; where a decoder is not listed, its read would fail. The
  second drive has no mac800 image at all, so that decoder was not used. The last three
  have short mac800 tracks: two bytes that are the boot-block signature, one byte, and
  102 bytes that do not start with the signature.
\<close>

theorem probe_mac_verdict_witness:
  "probe_mac (sample_drive [] 1) params_5_25 False = Inr (None, None) \<and>
   probe_mac (sample_drive [(''ibm1440'', replicate 0x400 0xf6 @ [0x42, 0x44])] 1) params_3_5 False =
     Inr (Some ''ibm1440'', Some ''hfs'') \<and>
   probe_mac (sample_drive [(''ibm1440'', []), (''mac800'', replicate 0x400 0xf6 @ [0xd2, 0xd7])] 1)
     params_3_5 False = Inr (Some ''mac400'', Some ''mfs'') \<and>
   probe_mac (sample_drive [(''ibm1440'', []), (''mac800'', [0x4c, 0x4b] @ replicate 0x400 0)] 1)
     params_3_5 False = Inr (Some ''mac800'', Some ''hfs'') \<and>
   probe_mac (sample_drive [(''ibm1440'', []), (''mac800'', replicate 0x402 0xf6)] 1)
     params_3_5 False = Inr (Some ''mac800'', None) \<and>
   probe_mac (sample_drive [(''ibm1440'', []), (''mac800'', [0x4c, 0x4b])] 1)
     params_3_5 False = Inr (Some ''mac800'', Some ''hfs'') \<and>
   probe_mac (sample_drive [(''ibm1440'', []), (''mac800'', [0x4c])] 1)
     params_3_5 False = Inl IndexError \<and>
   probe_mac (sample_drive [(''ibm1440'', []), (''mac800'', [0x4c, 0x4c] @ replicate 100 0)] 1)
     params_3_5 False = Inl IndexError"
  using probe_mac_verdict [where p = params_5_25 and fe = "sample_drive [] 1"]
    probe_mac_verdict [where p = params_3_5 and ibm = "replicate 0x400 0xf6 @ [0x42, 0x44]"
      and fe = "sample_drive [(''ibm1440'', replicate 0x400 0xf6 @ [0x42, 0x44])] 1"]
    probe_mac_verdict [where p = params_3_5 and ibm = "[]"
      and mac = "replicate 0x400 0xf6 @ [0xd2, 0xd7]"
      and fe = "sample_drive [(''ibm1440'', []), (''mac800'', replicate 0x400 0xf6 @ [0xd2, 0xd7])] 1"]
    probe_mac_verdict [where p = params_3_5 and ibm = "[]"
      and mac = "[0x4c, 0x4b] @ replicate 0x400 0"
      and fe = "sample_drive [(''ibm1440'', []), (''mac800'', [0x4c, 0x4b] @ replicate 0x400 0)] 1"]
    probe_mac_verdict [where p = params_3_5 and ibm = "[]"
      and mac = "replicate 0x402 0xf6"
      and fe = "sample_drive [(''ibm1440'', []), (''mac800'', replicate 0x402 0xf6)] 1"]
    probe_mac_verdict [where p = params_3_5 and ibm = "[]" and mac = "[0x4c, 0x4b]"
      and fe = "sample_drive [(''ibm1440'', []), (''mac800'', [0x4c, 0x4b])] 1"]
    probe_mac_verdict [where p = params_3_5 and ibm = "[]" and mac = "[0x4c]"
      and fe = "sample_drive [(''ibm1440'', []), (''mac800'', [0x4c])] 1"]
    probe_mac_verdict [where p = params_3_5 and ibm = "[]"
      and mac = "[0x4c, 0x4c] @ replicate 100 0"
      and fe = "sample_drive [(''ibm1440'', []), (''mac800'', [0x4c, 0x4c] @ replicate 100 0)] 1"]
  by (simp add: params_3_5_def params_5_25_def sample_drive_def read_track_def has_data_iff
      mac_verdict_def word_at_def byte_at_def nth_append fits_def)

text \<open>
  On 3.5-inch media an ibm1440 track of the single byte 1 is not empty and has no word
  at 0x400; the probe does not go on to decoder mac800 but raises IndexError.
\<close>

theorem probe_mac_short_buffer:
  "has_data [1] \<and>
   probe_mac (sample_drive [(''ibm1440'', [1]), (''mac800'', [])] 1) params_3_5 False =
     Inl IndexError"
  by (simp add: probe_mac_def params_3_5_def sample_drive_def read_track_def has_data_iff
      get_word_outside)

section \<open>The BPB/FAT probe's verdicts\<close>

lemma bpb_loop_skip_blank:
  "read_track fe format 0 p = Inr data \<Longrightarrow> \<not> has_data data \<Longrightarrow>
   bpb_loop fe p ((format, expected) # rest) = bpb_loop fe p rest"
  by simp

lemma bpb_loop_sized_step:
  assumes "read_track fe format 0 p = Inr data" and "has_data data" and "0x200 \<le> length data"
  shows "bpb_loop fe p ((format, expected) # rest) =
    (if bpb_candidate_matches data expected then
       Inr (Some format,
            Some (fat_type (real (word_at data 0x13 False) / real (byte_at data 0x0d))))
     else bpb_loop fe p rest)"
proof -
  from assms(3) have "get_word data 0x1fe False = Inr (word_at data 0x1fe False)"
    and "get_word data 0x13 False = Inr (word_at data 0x13 False)"
    and "get_byte data 0x0d = Inr (byte_at data 0x0d)"
    by (simp_all add: get_word_inside get_byte_inside)
  moreover from assms(2) have "get_byte data 0 = Inr (byte_at data 0)"
    by (intro get_byte_inside has_data_nonempty)
  ultimately show ?thesis
    using assms(1,2)
    by (simp add: bpb_candidate_matches_def)
qed

lemma bpb_loop_short:
  assumes "read_track fe format 0 p = Inr data" and "has_data data" and "length data < 0x200"
  shows "bpb_loop fe p ((format, expected) # rest) = Inl IndexError"
  using assms by (simp add: get_word_outside)

lemma bpb_loop_first_match:
  assumes "\<forall>c\<in>set tbl. read_track fe (fst c) 0 p = Inr (buffer (fst c)) \<and>
             (has_data (buffer (fst c)) \<longrightarrow> 0x200 \<le> length (buffer (fst c)))"
  shows "bpb_loop fe p tbl = Inr (bpb_first_match buffer tbl)"
  using assms
proof (induction tbl)
  case Nil
  show ?case by simp
next
  case (Cons c tbl)
  obtain format expected where c: "c = (format, expected)"
    by (cases c)
  from Cons.prems c have rd: "read_track fe format 0 p = Inr (buffer format)"
    and len: "has_data (buffer format) \<longrightarrow> 0x200 \<le> length (buffer format)"
    by simp_all
  from Cons have rest: "bpb_loop fe p tbl = Inr (bpb_first_match buffer tbl)"
    by simp
  show ?case
  proof (cases "has_data (buffer format)")
    case True
    with len have "0x200 \<le> length (buffer format)"
      by simp
    from bpb_loop_sized_step [OF rd True this] rest c show ?thesis
      by simp
  next
    case False
    with bpb_loop_skip_blank [OF rd False] rest c show ?thesis
      by (simp add: bpb_candidate_matches_def)
  qed
qed

lemma bpb_loop_winner:
  assumes "\<forall>c\<in>set skipped. \<exists>d. read_track fe (fst c) 0 p = Inr d \<and>
             (has_data d \<longrightarrow> 0x200 \<le> length d) \<and> \<not> bpb_candidate_matches d (snd c)"
    and "read_track fe winner 0 p = Inr won" and "0x200 \<le> length won"
    and "bpb_candidate_matches won sectors"
  shows "bpb_loop fe p (skipped @ (winner, sectors) # later) =
    Inr (Some winner, Some (fat_type (real sectors / real (byte_at won 0x0d))))"
  using assms(1)
proof (induction skipped)
  case Nil
  from assms(4) have "has_data won" and "word_at won 0x13 False = sectors"
    by (simp_all add: bpb_candidate_matches_def)
  with bpb_loop_sized_step [OF assms(2) this(1) assms(3)] assms(4) show ?case
    by simp
next
  case (Cons c skipped)
  obtain format expected where c: "c = (format, expected)"
    by (cases c)
  with Cons.prems obtain d where rd: "read_track fe format 0 p = Inr d"
    and len: "has_data d \<longrightarrow> 0x200 \<le> length d"
    and no: "\<not> bpb_candidate_matches d expected"
    by auto
  from Cons have rest: "bpb_loop fe p (skipped @ (winner, sectors) # later) =
    Inr (Some winner, Some (fat_type (real sectors / real (byte_at won 0x0d))))"
    by simp
  show ?case
  proof (cases "has_data d")
    case True
    with len have "0x200 \<le> length d"
      by simp
    from bpb_loop_sized_step [OF rd True this] no rest c show ?thesis
      by simp
  next
    case False
    with bpb_loop_skip_blank [OF rd False] rest c show ?thesis
      by simp
  qed
qed

text \<open>
  C2, as the code has it. The candidate tables are those of the specification. When the
  track 0 read of every candidate of the media size succeeds with a buffer that holds no
  non-zero byte or at least 512 bytes, the probe returns the first candidate, in table
  order, whose buffer holds a non-zero byte, the little-endian word 0xAA55 at 0x1FE, a
  first byte 0xEB or 0xE9, the candidate's expected sector count as little-endian word
  at 0x13 and a sectors-per-cluster byte among 1, 2, 4, ..., 128 at 0x0D, together with
  the FAT width of the real quotient of the two (below 4085 fat12, below 65525 fat16,
  else fat32, the comparisons strict); other candidates are skipped, and when none
  passes the verdict is (None, None). The candidates after the first that passes are
  not read: for the verdict it is enough that the candidates before it were read as
  above and failed a check. A candidate whose buffer holds a non-zero byte and fewer
  than 512 bytes is not skipped: the loop raises IndexError there.
\<close>

theorem probe_bpb_verdict:
  "bpb_probes Size_3_5 = [(''ibm1440'', 2880), (''ibm720'', 1440)] \<and>
   bpb_probes Size_5_25 =
     [(''ibm1200'', 2400), (''ibm360'', 720), (''ibm320'', 640), (''ibm180'', 360),
      (''ibm160'', 320)] \<and>
   ((\<forall>c\<in>set (bpb_probes (media_size p)).
       read_track fe (fst c) 0 p = Inr (buffer (fst c)) \<and>
       (has_data (buffer (fst c)) \<longrightarrow> 0x200 \<le> length (buffer (fst c)))) \<longrightarrow>
    probe_bpb fe p debug = Inr (bpb_first_match buffer (bpb_probes (media_size p)))) \<and>
   (bpb_probes (media_size p) = skipped @ (winner, sectors) # later \<and>
    (\<forall>c\<in>set skipped. \<exists>d. read_track fe (fst c) 0 p = Inr d \<and>
       (has_data d \<longrightarrow> 0x200 \<le> length d) \<and> \<not> bpb_candidate_matches d (snd c)) \<and>
    read_track fe winner 0 p = Inr won \<and> 0x200 \<le> length won \<and>
    bpb_candidate_matches won sectors \<longrightarrow>
      probe_bpb fe p debug =
        Inr (Some winner, Some (fat_type (real sectors / real (byte_at won 0x0d))))) \<and>
   fat_type 4084 = ''fat12'' \<and> fat_type 4085 = ''fat16'' \<and>
   fat_type 65524 = ''fat16'' \<and> fat_type 65525 = ''fat32'' \<and>
   (read_track fe format 0 p = Inr data \<and> has_data data \<and> length data < 0x200 \<longrightarrow>
      bpb_loop fe p ((format, expected) # rest) = Inl IndexError)"
proof (intro conjI impI)
  assume "\<forall>c\<in>set (bpb_probes (media_size p)).
       read_track fe (fst c) 0 p = Inr (buffer (fst c)) \<and>
       (has_data (buffer (fst c)) \<longrightarrow> 0x200 \<le> length (buffer (fst c)))"
  then show "probe_bpb fe p debug = Inr (bpb_first_match buffer (bpb_probes (media_size p)))"
    unfolding probe_bpb_def by (rule bpb_loop_first_match)
next
  assume "bpb_probes (media_size p) = skipped @ (winner, sectors) # later \<and>
    (\<forall>c\<in>set skipped. \<exists>d. read_track fe (fst c) 0 p = Inr d \<and>
       (has_data d \<longrightarrow> 0x200 \<le> length d) \<and> \<not> bpb_candidate_matches d (snd c)) \<and>
    read_track fe winner 0 p = Inr won \<and> 0x200 \<le> length won \<and>
    bpb_candidate_matches won sectors"
  then show "probe_bpb fe p debug =
    Inr (Some winner, Some (fat_type (real sectors / real (byte_at won 0x0d))))"
    by (auto simp: probe_bpb_def intro!: bpb_loop_winner)
next
  assume "read_track fe format 0 p = Inr data \<and> has_data data \<and> length data < 0x200"
  then have "read_track fe format 0 p = Inr data" and "has_data data" and "length data < 0x200"
    by simp_all
  then show "bpb_loop fe p ((format, expected) # rest) = Inl IndexError"
    by (rule bpb_loop_short)
qed (simp_all add: bpb_probes_def fat_type_def)

text \<open>
  The theorem at three drives. On 5.25-inch media the first candidate's track is blank
  and the second holds a boot sector of 720 sectors, two per cluster; once in a drive
  that reads every decoder, once in a drive whose reads of the later candidates would
  fail. On 3.5-inch media the first candidate has three sectors per cluster and the
  second has 1439 sectors where 1440 are expected: both are skipped.
\<close>

theorem probe_bpb_verdict_witness:
  "probe_bpb (sample_drive [(''ibm1200'', replicate 512 0), (''ibm360'', boot_sector 0xeb 720 2)] 0)
     params_5_25 False = Inr (Some ''ibm360'', Some ''fat12'') \<and>
   probe_bpb (sample_drive [(''ibm1200'', replicate 512 0), (''ibm360'', boot_sector 0xeb 720 2)] 1)
     params_5_25 False = Inr (Some ''ibm360'', Some ''fat12'') \<and>
   probe_bpb (sample_drive [(''ibm1440'', boot_sector 0xe9 2880 3), (''ibm720'', boot_sector 0xeb 1439 1)] 0)
     params_3_5 False = Inr (None, None)"
  using probe_bpb_verdict [where p = params_5_25
      and fe = "sample_drive [(''ibm1200'', replicate 512 0), (''ibm360'', boot_sector 0xeb 720 2)] 0"
      and buffer = "\<lambda>f. image (sample_drive [(''ibm1200'', replicate 512 0), (''ibm360'', boot_sector 0xeb 720 2)] 0 f 0 params_5_25)"]
   probe_bpb_verdict [where p = params_5_25
      and fe = "sample_drive [(''ibm1200'', replicate 512 0), (''ibm360'', boot_sector 0xeb 720 2)] 1"
      and skipped = "[(''ibm1200'', 2400)]" and winner = "''ibm360''" and sectors = 720
      and later = "[(''ibm320'', 640), (''ibm180'', 360), (''ibm160'', 320)]"
      and won = "boot_sector 0xeb 720 2"]
   probe_bpb_verdict [where p = params_3_5
      and fe = "sample_drive [(''ibm1440'', boot_sector 0xe9 2880 3), (''ibm720'', boot_sector 0xeb 1439 1)] 0"
      and buffer = "\<lambda>f. image (sample_drive [(''ibm1440'', boot_sector 0xe9 2880 3), (''ibm720'', boot_sector 0xeb 1439 1)] 0 f 0 params_3_5)"]
  by (simp add: params_3_5_def params_5_25_def sample_drive_def read_track_def has_data_iff
      bpb_probes_def bpb_candidate_matches_def boot_sector_def word_at_def byte_at_def nth_append
      fat_type_def)

text \<open>
  A three-byte track for the first 5.25-inch candidate fails the signature check, but
  the candidate is not skipped: reading the word at 0x1FE raises IndexError.
\<close>

theorem probe_bpb_short_buffer:
  "has_data [0xeb, 0x3c, 0x90] \<and>
   probe_bpb (sample_drive [(''ibm1200'', [0xeb, 0x3c, 0x90])] 0) params_5_25 False = Inl IndexError"
  by (simp add: probe_bpb_def bpb_probes_def params_5_25_def sample_drive_def read_track_def
      has_data_iff get_word_outside)

section \<open>Floppy sizes are always FAT12\<close>

lemma bpb_loop_fat12:
  "bpb_loop fe p tbl = Inr (Some f, fs) \<Longrightarrow> \<forall>c\<in>set tbl. snd c < 4085 \<Longrightarrow> fs = Some ''fat12''"
proof (induction tbl)
  case Nil
  then show ?case by simp
next
  case (Cons c tbl)
  obtain format expected where c: "c = (format, expected)"
    by (cases c)
  with Cons.prems have small: "expected < 4085"
    by simp
  have quot: "real expected / real spc < 4085" if "spc \<in> {1, 2, 4, 8, 16, 32, 64, 128}" for spc :: nat
    using that small by auto
  from Cons c quot show ?case
    by (auto simp: fat_type_def split: sum.splits if_splits)
qed

text \<open>
  C10. Whenever the BPB/FAT probe returns a format, its filesystem is fat12: every
  expected sector count of both tables is at most 2880, the sector count read equals
  the expected one and the sectors per cluster are at least 1, so the cluster count
  stays below 4085.
\<close>

theorem probe_bpb_always_fat12:
  "(probe_bpb fe p debug = Inr (Some format, filesystem) \<longrightarrow> filesystem = Some ''fat12'') \<and>
   (\<forall>c\<in>set (bpb_probes m). snd c \<le> 2880)"
proof (intro conjI impI)
  have small: "\<forall>c\<in>set (bpb_probes m). snd c < 4085" for m
    by (cases m) (simp_all add: bpb_probes_def)
  assume "probe_bpb fe p debug = Inr (Some format, filesystem)"
  then show "filesystem = Some ''fat12''"
    unfolding probe_bpb_def using small by (rule bpb_loop_fat12)
next
  show "\<forall>c\<in>set (bpb_probes m). snd c \<le> 2880"
    by (cases m) (simp_all add: bpb_probes_def)
qed

text \<open>
  The theorem at a 3.5-inch drive holding a boot sector of 2880 sectors, one per
  cluster: the largest cluster count there is.
\<close>

theorem probe_bpb_always_fat12_witness:
  "probe_bpb (sample_drive [(''ibm1440'', boot_sector 0xeb 2880 1)] 1) params_3_5 True =
     Inr (Some ''ibm1440'', Some ''fat12'') \<and>
   list_all (\<lambda>c. snd c \<le> 2880) (bpb_probes Size_5_25)"
  using probe_bpb_always_fat12 [where p = params_3_5 and debug = True and m = Size_5_25
      and fe = "sample_drive [(''ibm1440'', boot_sector 0xeb 2880 1)] 1"
      and format = "''ibm1440''" and filesystem = "Some ''fat12''"]
  by (simp add: probe_bpb_def bpb_probes_def params_3_5_def sample_drive_def read_track_def
      has_data_iff boot_sector_def get_word_def get_byte_def nth_append fat_type_def)

section \<open>Facts about sequencing and the pipeline\<close>

lemma and_then_eq_Inr: "and_then m f = Inr v \<longleftrightarrow> (\<exists>x. m = Inr x \<and> f x = Inr v)"
  by (cases m) simp_all

lemma and_then_eq_Inl:
  "and_then m f = Inl e \<longleftrightarrow> m = Inl e \<or> (\<exists>x. m = Inr x \<and> f x = Inl e)"
  by (cases m) simp_all

lemma read_track_error: "read_track fe decoder cylinder p = Inl e \<Longrightarrow> e = TypeError"
  by (simp add: read_track_def Let_def split: if_splits)

lemma format_line_not_common: "format_line format filesystem \<noteq> not_common"
  by (simp add: format_line_def not_common_def)

text \<open>Unfolding everything a sample drive needs to be run.\<close>

lemmas eval_defs =
  params_3_5_def params_5_25_def sample_drive_def read_track_def has_data_iff
  probe_bpb_def bpb_probes_def probe_mac_def probe_mac800_def probe_amiga_def probe_c64_def
  boot_sector_def d64_image_def get_word_def get_byte_def get_string_def upt_rec
  nth_append fat_type_def fstypes_def char_of_eq_iff

section \<open>The pipeline takes the first verdict\<close>

text \<open>
  C1. The pipeline runs the probes in the order BPB/FAT, Macintosh, Amiga, Commodore with
  the same parameters. If the BPB/FAT probe returns a format, that verdict is found and
  printed, whatever the later probes would do; if it returns no format and the Macintosh
  probe returns one, that verdict is; and so on for the Amiga and Commodore probes. If
  all four return no format, nothing is found and the line for an unidentified disk is
  printed, which differs from every line that reports a verdict.
\<close>

theorem main_first_verdict_wins:
  "(probe_bpb fe p debug = Inr (Some f, fs) \<longrightarrow>
      main_loop fe p debug = Inr (Some (f, fs)) \<and> main fe p debug = Inr (format_line f fs)) \<and>
   (probe_bpb fe p debug = Inr (None, x1) \<and> probe_mac fe p debug = Inr (Some f, fs) \<longrightarrow>
      main_loop fe p debug = Inr (Some (f, fs)) \<and> main fe p debug = Inr (format_line f fs)) \<and>
   (probe_bpb fe p debug = Inr (None, x1) \<and> probe_mac fe p debug = Inr (None, x2) \<and>
    probe_amiga fe p debug = Inr (Some f, fs) \<longrightarrow>
      main_loop fe p debug = Inr (Some (f, fs)) \<and> main fe p debug = Inr (format_line f fs)) \<and>
   (probe_bpb fe p debug = Inr (None, x1) \<and> probe_mac fe p debug = Inr (None, x2) \<and>
    probe_amiga fe p debug = Inr (None, x3) \<and> probe_c64 fe p debug = Inr (Some f, fs) \<longrightarrow>
      main_loop fe p debug = Inr (Some (f, fs)) \<and> main fe p debug = Inr (format_line f fs)) \<and>
   (probe_bpb fe p debug = Inr (None, x1) \<and> probe_mac fe p debug = Inr (None, x2) \<and>
    probe_amiga fe p debug = Inr (None, x3) \<and> probe_c64 fe p debug = Inr (None, x4) \<longrightarrow>
      main_loop fe p debug = Inr None \<and> main fe p debug = Inr not_common) \<and>
   format_line f fs \<noteq> not_common"
  by (simp add: main_def main_loop_def format_line_not_common)

text \<open>
  The theorem at five drives, one for each way out of the loop. On the first, a FAT disk
  in a drive whose other decoders fail, the Amiga probe by itself would raise: it is
  never run.
\<close>

theorem main_first_verdict_wins_witness:
  "main (sample_drive [(''ibm1440'', boot_sector 0xeb 2880 1)] 1) params_3_5 False =
     Inr ''Format: ibm1440, Filesystem: fat12'' \<and>
   probe_amiga (sample_drive [(''ibm1440'', boot_sector 0xeb 2880 1)] 1) params_3_5 False =
     Inl TypeError \<and>
   main (sample_drive [(''ibm1440'', []), (''ibm720'', []), (''mac800'', replicate 0x402 0xf6)] 1)
     params_3_5 False = Inr ''Format: mac800, Filesystem: None'' \<and>
   main (sample_drive [(''amiga'', [0x44, 0x4f, 0x53, 0x01] @ replicate 508 0)] 0)
     params_3_5 False = Inr ''Format: amiga, Filesystem: amiga_ffs'' \<and>
   main (sample_drive [(''commodore1541'', d64_image 0x12 0x01 0x32 0x41)] 0)
     params_5_25 False = Inr ''Format: commodore1541, Filesystem: 2A'' \<and>
   main (sample_drive [] 0) params_3_5 False = Inr ''Not a common format or it is corrupt''"
  using
    main_first_verdict_wins [where p = params_3_5 and debug = False
      and fe = "sample_drive [(''ibm1440'', boot_sector 0xeb 2880 1)] 1"
      and f = "''ibm1440''" and fs = "Some ''fat12''"]
    main_first_verdict_wins [where p = params_3_5 and debug = False
      and fe = "sample_drive [(''ibm1440'', []), (''ibm720'', []), (''mac800'', replicate 0x402 0xf6)] 1"
      and ?x1.0 = None and f = "''mac800''" and fs = None]
    main_first_verdict_wins [where p = params_3_5 and debug = False
      and fe = "sample_drive [(''amiga'', [0x44, 0x4f, 0x53, 0x01] @ replicate 508 0)] 0"
      and ?x1.0 = None and ?x2.0 = None and f = "''amiga''" and fs = "Some ''amiga_ffs''"]
    main_first_verdict_wins [where p = params_5_25 and debug = False
      and fe = "sample_drive [(''commodore1541'', d64_image 0x12 0x01 0x32 0x41)] 0"
      and ?x1.0 = None and ?x2.0 = None and ?x3.0 = None
      and f = "''commodore1541''" and fs = "Some ''2A''"]
    main_first_verdict_wins [where p = params_3_5 and debug = False
      and fe = "sample_drive [] 0"
      and ?x1.0 = None and ?x2.0 = None and ?x3.0 = None and ?x4.0 = None]
  by (simp add: eval_defs format_line_def not_common_def)

section \<open>The verdict invariant\<close>

lemma bpb_loop_invariant: "bpb_loop fe p tbl = Inr v \<Longrightarrow> verdict_invariant v"
proof (induction tbl)
  case Nil
  then show ?case by (auto simp: verdict_invariant_def)
next
  case (Cons c tbl)
  obtain format expected where "c = (format, expected)"
    by (cases c)
  with Cons show ?case
    by (auto simp: verdict_invariant_def split: sum.splits if_splits)
qed

lemma probe_mac800_invariant: "probe_mac800 fe p = Inr v \<Longrightarrow> verdict_invariant v"
  by (auto simp: probe_mac800_def verdict_invariant_def and_then_eq_Inr split: if_splits)

lemma probe_mac_invariant: "probe_mac fe p debug = Inr v \<Longrightarrow> verdict_invariant v"
  by (auto simp: probe_mac_def and_then_eq_Inr verdict_invariant_def split: if_splits
      dest: probe_mac800_invariant)

lemma probe_amiga_invariant: "probe_amiga fe p debug = Inr v \<Longrightarrow> verdict_invariant v"
  by (auto simp: probe_amiga_def and_then_eq_Inr verdict_invariant_def split: if_splits)

lemma probe_c64_invariant: "probe_c64 fe p debug = Inr v \<Longrightarrow> verdict_invariant v"
  by (auto simp: probe_c64_def and_then_eq_Inr verdict_invariant_def split: if_splits)

lemma main_loop_found:
  "main_loop fe p debug = Inr (Some (f, fs)) \<Longrightarrow>
   probe_bpb fe p debug = Inr (Some f, fs) \<or> probe_mac fe p debug = Inr (Some f, fs) \<or>
   probe_amiga fe p debug = Inr (Some f, fs) \<or> probe_c64 fe p debug = Inr (Some f, fs)"
  by (auto simp: main_loop_def split: sum.splits option.splits)

lemma main_loop_error:
  "main_loop fe p debug = Inl e \<Longrightarrow>
   probe_bpb fe p debug = Inl e \<or> probe_mac fe p debug = Inl e \<or>
   probe_amiga fe p debug = Inl e \<or> probe_c64 fe p debug = Inl e"
  by (auto simp: main_loop_def split: sum.splits option.splits)

lemma main_error:
  "main fe p debug = Inl e \<Longrightarrow> main_loop fe p debug = Inl e"
  by (auto simp: main_def and_then_eq_Inl split: option.splits)

text \<open>
  C6. Every verdict a probe returns satisfies the invariant: a verdict without format
  has no filesystem. A verdict the pipeline finds has a format, and is the verdict of one
  of the four probes.
\<close>

theorem verdicts_keep_invariant:
  "(probe_bpb fe p debug = Inr v \<longrightarrow> verdict_invariant v) \<and>
   (probe_mac fe p debug = Inr v \<longrightarrow> verdict_invariant v) \<and>
   (probe_amiga fe p debug = Inr v \<longrightarrow> verdict_invariant v) \<and>
   (probe_c64 fe p debug = Inr v \<longrightarrow> verdict_invariant v) \<and>
   (probe_bpb fe p debug = Inr (None, fs) \<or> probe_mac fe p debug = Inr (None, fs) \<or>
    probe_amiga fe p debug = Inr (None, fs) \<or> probe_c64 fe p debug = Inr (None, fs) \<longrightarrow>
      fs = None) \<and>
   (main_loop fe p debug = Inr (Some (f, fs')) \<longrightarrow>
      verdict_invariant (Some f, fs') \<and>
      (probe_bpb fe p debug = Inr (Some f, fs') \<or> probe_mac fe p debug = Inr (Some f, fs') \<or>
       probe_amiga fe p debug = Inr (Some f, fs') \<or> probe_c64 fe p debug = Inr (Some f, fs')))"
proof (intro conjI impI)
  assume "probe_bpb fe p debug = Inr v"
  then show "verdict_invariant v"
    unfolding probe_bpb_def by (rule bpb_loop_invariant)
next
  assume "probe_mac fe p debug = Inr v"
  then show "verdict_invariant v"
    by (rule probe_mac_invariant)
next
  assume "probe_amiga fe p debug = Inr v"
  then show "verdict_invariant v"
    by (rule probe_amiga_invariant)
next
  assume "probe_c64 fe p debug = Inr v"
  then show "verdict_invariant v"
    by (rule probe_c64_invariant)
next
  assume "probe_bpb fe p debug = Inr (None, fs) \<or> probe_mac fe p debug = Inr (None, fs) \<or>
    probe_amiga fe p debug = Inr (None, fs) \<or> probe_c64 fe p debug = Inr (None, fs)"
  then have "verdict_invariant (None, fs)"
    using bpb_loop_invariant [of fe p "bpb_probes (media_size p)" "(None, fs)"]
      probe_mac_invariant [of fe p debug "(None, fs)"]
      probe_amiga_invariant [of fe p debug "(None, fs)"]
      probe_c64_invariant [of fe p debug "(None, fs)"]
    by (auto simp: probe_bpb_def)
  then show "fs = None"
    by (simp add: verdict_invariant_def)
next
  show "verdict_invariant (Some f, fs')"
    by (simp add: verdict_invariant_def)
next
  assume "main_loop fe p debug = Inr (Some (f, fs'))"
  then show "probe_bpb fe p debug = Inr (Some f, fs') \<or> probe_mac fe p debug = Inr (Some f, fs') \<or>
    probe_amiga fe p debug = Inr (Some f, fs') \<or> probe_c64 fe p debug = Inr (Some f, fs')"
    by (rule main_loop_found)
qed

text \<open>
  The theorem at a 3.5-inch drive with an Amiga track whose tag is not in the table: the
  BPB/FAT, Macintosh and Commodore probes return (None, None), the Amiga probe and the
  pipeline (amiga, None).
\<close>

theorem verdicts_keep_invariant_witness:
  "probe_bpb (sample_drive [(''amiga'', [1, 2, 3, 4])] 0) params_3_5 False = Inr (None, None) \<and>
   probe_mac (sample_drive [(''amiga'', [1, 2, 3, 4])] 0) params_3_5 False = Inr (None, None) \<and>
   probe_c64 (sample_drive [(''amiga'', [1, 2, 3, 4])] 0) params_3_5 False = Inr (None, None) \<and>
   verdict_invariant (None, None) \<and>
   probe_amiga (sample_drive [(''amiga'', [1, 2, 3, 4])] 0) params_3_5 False =
     Inr (Some ''amiga'', None) \<and>
   verdict_invariant (Some ''amiga'', None) \<and>
   main_loop (sample_drive [(''amiga'', [1, 2, 3, 4])] 0) params_3_5 False =
     Inr (Some (''amiga'', None))"
  using
    verdicts_keep_invariant [where p = params_3_5 and debug = False
      and fe = "sample_drive [(''amiga'', [1, 2, 3, 4])] 0"
      and v = "(None, None)" and fs = None and f = "''amiga''" and fs' = None]
    verdicts_keep_invariant [where p = params_3_5 and debug = False
      and fe = "sample_drive [(''amiga'', [1, 2, 3, 4])] 0"
      and v = "(Some ''amiga'', None)"]
  by (simp add: eval_defs main_loop_def)

section \<open>Blank tracks\<close>

lemma bpb_loop_all_blank:
  "\<forall>c\<in>set tbl. \<exists>blank. read_track fe (fst c) 0 p = Inr blank \<and> \<not> has_data blank \<Longrightarrow>
   bpb_loop fe p tbl = Inr (None, None)"
proof (induction tbl)
  case Nil
  show ?case by simp
next
  case (Cons c tbl)
  obtain format expected where "c = (format, expected)"
    by (cases c)
  with Cons show ?case
    by auto
qed

text \<open>
  C7. \<^verbatim>\<open>has_data\<close> holds exactly for a buffer with a non-zero byte; the empty
  buffer and a buffer of zeros have none. A probe that is given such a buffer does not
  interpret it. The BPB/FAT loop goes on with the next candidate, and returns
  (None, None) when every candidate's track is blank. The Macintosh probe goes from a
  blank ibm1440 track to the mac800 read, whose blank track gives (None, None). The
  Amiga and Commodore probes return (None, None).
\<close>

theorem blank_track_no_verdict:
  "(has_data data \<longleftrightarrow> (\<exists>b\<in>set data. b \<noteq> 0)) \<and>
   \<not> has_data [] \<and> \<not> has_data (replicate n 0) \<and>
   (read_track fe format 0 p = Inr blank \<and> \<not> has_data blank \<longrightarrow>
      bpb_loop fe p ((format, expected) # rest) = bpb_loop fe p rest) \<and>
   ((\<forall>c\<in>set (bpb_probes (media_size p)).
       \<exists>blank. read_track fe (fst c) 0 p = Inr blank \<and> \<not> has_data blank) \<longrightarrow>
      probe_bpb fe p debug = Inr (None, None)) \<and>
   (media_size p = Size_3_5 \<and> read_track fe ''ibm1440'' 0 p = Inr blank \<and> \<not> has_data blank \<longrightarrow>
      probe_mac fe p debug = probe_mac800 fe p) \<and>
   (read_track fe ''mac800'' 0 p = Inr blank \<and> \<not> has_data blank \<longrightarrow>
      probe_mac800 fe p = Inr (None, None)) \<and>
   (read_track fe ''ibm1440'' 0 p = Inr blank \<and> \<not> has_data blank \<and>
    read_track fe ''mac800'' 0 p = Inr blank' \<and> \<not> has_data blank' \<longrightarrow>
      probe_mac fe p debug = Inr (None, None)) \<and>
   (read_track fe ''amiga'' 0 p = Inr blank \<and> \<not> has_data blank \<longrightarrow>
      probe_amiga fe p debug = Inr (None, None)) \<and>
   (read_track fe ''commodore1541'' 17 p = Inr blank \<and> \<not> has_data blank \<longrightarrow>
      probe_c64 fe p debug = Inr (None, None))"
proof (intro conjI impI)
  show "has_data data \<longleftrightarrow> (\<exists>b\<in>set data. b \<noteq> 0)"
    by (rule has_data_iff)
  show "\<not> has_data []" and "\<not> has_data (replicate n 0)"
    by (simp_all add: has_data_iff)
next
  assume "\<forall>c\<in>set (bpb_probes (media_size p)).
    \<exists>blank. read_track fe (fst c) 0 p = Inr blank \<and> \<not> has_data blank"
  then show "probe_bpb fe p debug = Inr (None, None)"
    unfolding probe_bpb_def by (rule bpb_loop_all_blank)
qed (simp_all add: probe_mac_def probe_mac800_def probe_amiga_def probe_c64_def)

text \<open>
  The theorem at a drive that returns tracks of zeros for every decoder, on both media
  sizes.
\<close>

theorem blank_track_no_verdict_witness:
  "\<not> has_data (replicate 512 0) \<and>
   probe_bpb (sample_drive [(''ibm1440'', replicate 512 0), (''ibm720'', [])] 1)
     params_3_5 False = Inr (None, None) \<and>
   probe_mac (sample_drive [(''ibm1440'', replicate 512 0), (''mac800'', replicate 512 0)] 1)
     params_3_5 False = Inr (None, None) \<and>
   probe_amiga (sample_drive [(''amiga'', replicate 512 0)] 1) params_3_5 False =
     Inr (None, None) \<and>
   probe_c64 (sample_drive [(''commodore1541'', replicate 0x2ab00 0)] 1) params_5_25 False =
     Inr (None, None)"
  using
    blank_track_no_verdict [where p = params_3_5 and debug = False and n = 512
      and fe = "sample_drive [(''ibm1440'', replicate 512 0), (''ibm720'', [])] 1"
      and blank = "replicate 512 0"]
    blank_track_no_verdict [where p = params_3_5 and debug = False
      and fe = "sample_drive [(''ibm1440'', replicate 512 0), (''mac800'', replicate 512 0)] 1"
      and blank = "replicate 512 0" and blank' = "replicate 512 0"]
    blank_track_no_verdict [where p = params_3_5 and debug = False
      and fe = "sample_drive [(''amiga'', replicate 512 0)] 1" and blank = "replicate 512 0"]
    blank_track_no_verdict [where p = params_5_25 and debug = False
      and fe = "sample_drive [(''commodore1541'', replicate 0x2ab00 0)] 1"
      and blank = "replicate 0x2ab00 0"]
  by (simp add: params_3_5_def params_5_25_def sample_drive_def read_track_def has_data_iff
      bpb_probes_def)

section \<open>Reading past the end of a buffer\<close>

lemma bpb_loop_in_bounds:
  "bpb_loop fe p tbl \<noteq> Inl IndexError \<longleftrightarrow> bpb_in_bounds fe p tbl"
proof (induction tbl)
  case Nil
  show ?case by simp
next
  case (Cons c tbl)
  obtain format expected where c: "c = (format, expected)"
    by (cases c)
  show ?case
  proof (cases "read_track fe format 0 p")
    case (Inl e)
    then have "e = TypeError"
      by (rule read_track_error)
    with Inl c show ?thesis
      by simp
  next
    case (Inr data)
    show ?thesis
    proof (cases "has_data data")
      case False
      with Inr c Cons.IH show ?thesis
        by (simp add: fits_def bpb_candidate_matches_def)
    next
      case True
      show ?thesis
      proof (cases "0x200 \<le> length data")
        case sized: True
        from bpb_loop_sized_step [OF Inr True sized] Inr c Cons.IH True sized show ?thesis
          by (simp add: fits_def)
      next
        case False
        then have "length data < 0x200"
          by simp
        from bpb_loop_short [OF Inr True this] Inr c True False show ?thesis
          by (simp add: fits_def)
      qed
    qed
  qed
qed

lemma probe_mac800_in_bounds:
  "probe_mac800 fe p \<noteq> Inl IndexError \<longleftrightarrow> mac800_in_bounds fe p"
proof (cases "read_track fe ''mac800'' 0 p")
  case (Inl e)
  then have "e = TypeError"
    by (rule read_track_error)
  with Inl show ?thesis
    by (simp add: probe_mac800_def mac800_in_bounds_def)
next
  case (Inr mac)
  from probe_mac800_outcome [OF Inr] Inr show ?thesis
    by (simp add: mac800_in_bounds_def)
qed

lemma probe_mac_in_bounds:
  "probe_mac fe p debug \<noteq> Inl IndexError \<longleftrightarrow> mac_in_bounds fe p"
proof (cases "media_size p")
  case Size_5_25
  then show ?thesis
    by (simp add: probe_mac_def mac_in_bounds_def)
next
  case Size_3_5
  show ?thesis
  proof (cases "read_track fe ''ibm1440'' 0 p")
    case (Inl e)
    then have "e = TypeError"
      by (rule read_track_error)
    with Inl Size_3_5 show ?thesis
      by (simp add: probe_mac_def mac_in_bounds_def)
  next
    case (Inr ibm)
    show ?thesis
    proof (cases "fits ibm 0x402")
      case False
      from probe_mac_ibm_short [OF Size_3_5 Inr False] Inr Size_3_5 False show ?thesis
        by (simp add: mac_in_bounds_def)
    next
      case True
      show ?thesis
      proof (cases "has_data ibm \<and> word_at ibm 0x400 True = 0x4244")
        case hit: True
        with True have "0x402 \<le> length ibm"
          by (simp add: fits_def)
        with probe_mac_ibm_hit [OF Size_3_5 Inr] hit Inr Size_3_5 True show ?thesis
          by (simp add: mac_in_bounds_def)
      next
        case False
        from probe_mac_ibm_miss [OF Size_3_5 Inr True False] Inr Size_3_5 True False
        show ?thesis
          by (auto simp: mac_in_bounds_def probe_mac800_in_bounds)
      qed
    qed
  qed
qed

lemma probe_amiga_in_bounds:
  "probe_amiga fe p debug \<noteq> Inl IndexError \<longleftrightarrow> amiga_in_bounds fe p"
proof (cases "read_track fe ''amiga'' 0 p")
  case (Inl e)
  then have "e = TypeError"
    by (rule read_track_error)
  with Inl show ?thesis
    by (simp add: probe_amiga_def amiga_in_bounds_def)
next
  case (Inr data)
  show ?thesis
  proof (cases "4 \<le> length data")
    case True
    with Inr show ?thesis
      by (simp add: probe_amiga_def amiga_in_bounds_def fits_def get_string_inside)
  next
    case False
    with Inr show ?thesis
      by (simp add: probe_amiga_def amiga_in_bounds_def fits_def get_string_outside)
  qed
qed

lemma probe_c64_in_bounds:
  "probe_c64 fe p debug \<noteq> Inl IndexError \<longleftrightarrow> c64_in_bounds fe p"
proof (cases "media_size p")
  case Size_3_5
  then show ?thesis
    by (simp add: probe_c64_def c64_in_bounds_def)
next
  case Size_5_25
  show ?thesis
  proof (cases "read_track fe ''commodore1541'' 17 p")
    case (Inl e)
    then have "e = TypeError"
      by (rule read_track_error)
    with Inl Size_5_25 show ?thesis
      by (simp add: probe_c64_def c64_in_bounds_def)
  next
    case (Inr data)
    from probe_c64_outcome [OF Size_5_25 Inr] Inr Size_5_25 show ?thesis
      by (simp add: c64_in_bounds_def)
  qed
qed

lemma no_format_is_none:
  "probe_bpb fe p debug = Inr (None, fs) \<Longrightarrow> fs = None"
  "probe_mac fe p debug = Inr (None, fs) \<Longrightarrow> fs = None"
  "probe_amiga fe p debug = Inr (None, fs) \<Longrightarrow> fs = None"
  using bpb_loop_invariant [of fe p "bpb_probes (media_size p)" "(None, fs)"]
    probe_mac_invariant [of fe p debug "(None, fs)"]
    probe_amiga_invariant [of fe p debug "(None, fs)"]
  by (simp_all add: probe_bpb_def verdict_invariant_def)

lemma main_index_error:
  "main fe p debug = Inl IndexError \<longleftrightarrow>
     probe_bpb fe p debug = Inl IndexError \<or>
     probe_bpb fe p debug = Inr (None, None) \<and>
     (probe_mac fe p debug = Inl IndexError \<or>
      probe_mac fe p debug = Inr (None, None) \<and>
      (probe_amiga fe p debug = Inl IndexError \<or>
       probe_amiga fe p debug = Inr (None, None) \<and> probe_c64 fe p debug = Inl IndexError))"
proof -
  have "main fe p debug = Inl IndexError \<longleftrightarrow> main_loop fe p debug = Inl IndexError"
    by (auto simp: main_def and_then_eq_Inl split: option.splits)
  also have "\<dots> \<longleftrightarrow>
     probe_bpb fe p debug = Inl IndexError \<or>
     probe_bpb fe p debug = Inr (None, None) \<and>
     (probe_mac fe p debug = Inl IndexError \<or>
      probe_mac fe p debug = Inr (None, None) \<and>
      (probe_amiga fe p debug = Inl IndexError \<or>
       probe_amiga fe p debug = Inr (None, None) \<and> probe_c64 fe p debug = Inl IndexError))"
    by (auto simp: main_loop_def split: sum.splits option.splits dest: no_format_is_none)
  finally show ?thesis .
qed

text \<open>
  C8, as the code has it. The emptiness check guarantees one byte, not a size: a buffer
  that passes it has a first byte, and no more is known. A probe raises no IndexError
  exactly when every buffer it acquires either holds no non-zero byte or holds each
  field the probe goes on to ask of it: 512 bytes for a BPB/FAT candidate that is
  reached; 0x402 bytes for the ibm1440 read of the Macintosh probe; for its mac800 read,
  when that is made, two bytes that are 0x4C4B or else 0x402 bytes; 4 bytes for the
  Amiga tag; for the Commodore probe the byte at 0x16500, the next byte if that is 0x12,
  and the marker up to 0x165A7 if the next is 0x01. Reads that are not made, on the
  other media size or after a verdict, do not matter. The pipeline raises no IndexError
  exactly when that holds of every probe it runs: each probe up to the first that
  returns a format.
\<close>

theorem index_error_iff_short_buffer:
  "(has_data data \<longrightarrow> 0 < length data) \<and>
   (probe_bpb fe p debug \<noteq> Inl IndexError \<longleftrightarrow>
      bpb_in_bounds fe p (bpb_probes (media_size p))) \<and>
   (probe_mac fe p debug \<noteq> Inl IndexError \<longleftrightarrow> mac_in_bounds fe p) \<and>
   (probe_amiga fe p debug \<noteq> Inl IndexError \<longleftrightarrow> amiga_in_bounds fe p) \<and>
   (probe_c64 fe p debug \<noteq> Inl IndexError \<longleftrightarrow> c64_in_bounds fe p) \<and>
   (main fe p debug \<noteq> Inl IndexError \<longleftrightarrow>
      bpb_in_bounds fe p (bpb_probes (media_size p)) \<and>
      (probe_bpb fe p debug = Inr (None, None) \<longrightarrow>
         mac_in_bounds fe p \<and>
         (probe_mac fe p debug = Inr (None, None) \<longrightarrow>
            amiga_in_bounds fe p \<and>
            (probe_amiga fe p debug = Inr (None, None) \<longrightarrow> c64_in_bounds fe p))))"
proof (intro conjI)
  show "has_data data \<longrightarrow> 0 < length data"
    using has_data_nonempty [of data] by blast
  show bpb: "probe_bpb fe p debug \<noteq> Inl IndexError \<longleftrightarrow>
      bpb_in_bounds fe p (bpb_probes (media_size p))"
    unfolding probe_bpb_def by (rule bpb_loop_in_bounds)
  show mac: "probe_mac fe p debug \<noteq> Inl IndexError \<longleftrightarrow> mac_in_bounds fe p"
    by (rule probe_mac_in_bounds)
  show amiga: "probe_amiga fe p debug \<noteq> Inl IndexError \<longleftrightarrow> amiga_in_bounds fe p"
    by (rule probe_amiga_in_bounds)
  show c64: "probe_c64 fe p debug \<noteq> Inl IndexError \<longleftrightarrow> c64_in_bounds fe p"
    by (rule probe_c64_in_bounds)
  from bpb mac amiga c64 main_index_error [of fe p debug]
  show "main fe p debug \<noteq> Inl IndexError \<longleftrightarrow>
      bpb_in_bounds fe p (bpb_probes (media_size p)) \<and>
      (probe_bpb fe p debug = Inr (None, None) \<longrightarrow>
         mac_in_bounds fe p \<and>
         (probe_mac fe p debug = Inr (None, None) \<longrightarrow>
            amiga_in_bounds fe p \<and>
            (probe_amiga fe p debug = Inr (None, None) \<longrightarrow> c64_in_bounds fe p)))"
    by auto
qed

text \<open>
  The theorem at two drives. The first is a 3.5-inch drive with a FAT boot sector of 512
  bytes and one-byte tracks for the amiga and commodore1541 decoders: the BPB/FAT probe
  returns a format and the pipeline raises nothing, although the Macintosh and Amiga
  probes by themselves would read past the end, and the Commodore probe does not read
  on this media size. The second is a 5.25-inch drive with a 1541 image and a one-byte
  amiga track that is never read.
\<close>

theorem index_error_iff_short_buffer_witness:
  "main (sample_drive [(''ibm1440'', boot_sector 0xeb 2880 1), (''amiga'', [1]),
                       (''commodore1541'', [1])] 1) params_3_5 False \<noteq> Inl IndexError \<and>
   probe_c64 (sample_drive [(''ibm1440'', boot_sector 0xeb 2880 1), (''amiga'', [1]),
                            (''commodore1541'', [1])] 1) params_3_5 False \<noteq> Inl IndexError \<and>
   probe_mac (sample_drive [(''ibm1440'', boot_sector 0xeb 2880 1), (''amiga'', [1]),
                            (''commodore1541'', [1])] 1) params_3_5 False = Inl IndexError \<and>
   probe_amiga (sample_drive [(''ibm1440'', boot_sector 0xeb 2880 1), (''amiga'', [1]),
                              (''commodore1541'', [1])] 1) params_3_5 False = Inl IndexError \<and>
   probe_c64 (sample_drive [(''commodore1541'', d64_image 0x12 0x01 0x32 0x41), (''amiga'', [1])] 0)
     params_5_25 False \<noteq> Inl IndexError \<and>
   main (sample_drive [(''commodore1541'', d64_image 0x12 0x01 0x32 0x41), (''amiga'', [1])] 0)
     params_5_25 False \<noteq> Inl IndexError"
  using
    index_error_iff_short_buffer [where p = params_3_5 and debug = False
      and fe = "sample_drive [(''ibm1440'', boot_sector 0xeb 2880 1), (''amiga'', [1]),
                              (''commodore1541'', [1])] 1"]
    index_error_iff_short_buffer [where p = params_5_25 and debug = False
      and fe = "sample_drive [(''commodore1541'', d64_image 0x12 0x01 0x32 0x41), (''amiga'', [1])] 0"]
  by (simp add: params_3_5_def params_5_25_def sample_drive_def read_track_def has_data_iff
      bpb_probes_def probe_bpb_def boot_sector_def d64_image_def get_word_def get_byte_def
      nth_append fat_type_def fits_def bpb_candidate_matches_def word_at_def byte_at_def
      mac_in_bounds_def mac800_in_bounds_def amiga_in_bounds_def c64_in_bounds_def
      c64_extent_def)

text \<open>
  A one-byte track for the first 3.5-inch candidate passes the emptiness check, and
  the BPB/FAT probe reads past its end; the exception ends the pipeline.
\<close>

theorem has_data_is_no_size_check:
  "has_data [0xeb] \<and>
   probe_bpb (sample_drive [(''ibm1440'', [0xeb])] 0) params_3_5 False = Inl IndexError \<and>
   main (sample_drive [(''ibm1440'', [0xeb])] 0) params_3_5 False = Inl IndexError"
  by (simp add: eval_defs main_def main_loop_def)

end
